theory Spec2Isabelle
  imports Main "HOL-Library.Word" "HOL-Library.Monad_Syntax"
begin

unbundle bit_operations_syntax

section \<open>Go values used by the MC protocol client\<close>

text \<open>
  A Go \<^verbatim>\<open>byte\<close> is an 8-bit word, an \<^verbatim>\<open>int64\<close> a 64-bit word read with \<open>sint\<close>,
  a \<^verbatim>\<open>[]byte\<close> a list of bytes and a Go \<^verbatim>\<open>string\<close> a list of characters.
  A Go \<^verbatim>\<open>error\<close> is a value: \<open>ErrorString\<close> is what \<^verbatim>\<open>errors.New\<close> and
  \<^verbatim>\<open>fmt.Errorf\<close> build, \<open>HexErrLength\<close> and \<open>HexInvalidByte\<close> are the two errors
  of \<^verbatim>\<open>encoding/hex\<close>, \<open>NetError\<close> is whatever the TCP connection reports, and
  \<open>SliceBoundsPanic\<close> stands for the run-time panic of a slice expression that is
  out of range.
\<close>

type_synonym byte = "8 word"
type_synonym int64 = "64 word"

datatype go_error =
    ErrorString string
  | HexErrLength
  | HexInvalidByte char
  | NetError string
  | SliceBoundsPanic

subsection \<open>\<^verbatim>\<open>fmt.Sprintf("%X", ...)\<close>\<close>

text \<open>
  The verb \<^verbatim>\<open>%X\<close> prints a byte slice as two upper-case hexadecimal digits per byte,
  and a single integer (such as one \<^verbatim>\<open>byte\<close>) with as many digits as the number
  needs, without a leading zero.
\<close>

definition hexDigit :: "nat \<Rightarrow> char" where
  "hexDigit n = ''0123456789ABCDEF'' ! n"

definition hexByte :: "byte \<Rightarrow> string" where
  "hexByte b = [hexDigit (unat b div 16), hexDigit (unat b mod 16)]"

definition hexBytes :: "byte list \<Rightarrow> string" where
  "hexBytes bs = concat (map hexByte bs)"

definition hexUint8 :: "byte \<Rightarrow> string" where
  "hexUint8 b =
     (if unat b < 16 then [hexDigit (unat b)]
      else [hexDigit (unat b div 16), hexDigit (unat b mod 16)])"

subsection \<open>\<^verbatim>\<open>hex.DecodeString\<close>\<close>

definition fromHexChar :: "char \<Rightarrow> byte option" where
  "fromHexChar c =
     (let n = (of_char c :: nat) in
      if 48 \<le> n \<and> n \<le> 57 then Some (of_nat (n - 48))
      else if 97 \<le> n \<and> n \<le> 102 then Some (of_nat (n - 97 + 10))
      else if 65 \<le> n \<and> n \<le> 70 then Some (of_nat (n - 65 + 10))
      else None)"

fun hex_DecodeString :: "string \<Rightarrow> go_error + byte list" where
  "hex_DecodeString [] = Inr []"
| "hex_DecodeString [p] =
     (case fromHexChar p of None \<Rightarrow> Inl (HexInvalidByte p) | Some a \<Rightarrow> Inl HexErrLength)"
| "hex_DecodeString (p # q # rest) =
     (case fromHexChar p of
        None \<Rightarrow> Inl (HexInvalidByte p)
      | Some a \<Rightarrow>
          (case fromHexChar q of
             None \<Rightarrow> Inl (HexInvalidByte q)
           | Some b \<Rightarrow>
               (case hex_DecodeString rest of
                  Inl e \<Rightarrow> Inl e
                | Inr bs \<Rightarrow> Inr ((push_bit 4 a OR b) # bs))))"

subsection \<open>\<^verbatim>\<open>binary.Write\<close> of an \<^verbatim>\<open>int64\<close>, little endian\<close>

definition littleEndian64 :: "int64 \<Rightarrow> byte list" where
  "littleEndian64 w =
     [ucast w, ucast (drop_bit 8 w), ucast (drop_bit 16 w), ucast (drop_bit 24 w),
      ucast (drop_bit 32 w), ucast (drop_bit 40 w), ucast (drop_bit 48 w),
      ucast (drop_bit 56 w)]"

text \<open>The number a little-endian byte sequence stands for.\<close>

fun leValue :: "byte list \<Rightarrow> nat" where
  "leValue [] = 0"
| "leValue (b # bs) = unat b + 256 * leValue bs"

subsection \<open>Slice expressions\<close>

text \<open>
  \<open>sliceLen s lo hi\<close> is \<^verbatim>\<open>s[lo:hi]\<close> and \<open>sliceFrom s lo\<close> is \<^verbatim>\<open>s[lo:]\<close> for a
  slice of which only the length is known: indices within the length are in range.
  The parsers and the health check only slice behind a length guard.
\<close>

definition sliceLen :: "'a list \<Rightarrow> nat \<Rightarrow> nat \<Rightarrow> 'a list option" where
  "sliceLen s lo hi =
     (if lo \<le> hi \<and> hi \<le> length s then Some (take (hi - lo) (drop lo s)) else None)"

definition sliceFrom :: "'a list \<Rightarrow> nat \<Rightarrow> 'a list option" where
  "sliceFrom s lo = (if lo \<le> length s then Some (drop lo s) else None)"

definition index :: "'a list \<Rightarrow> nat \<Rightarrow> 'a option" where
  "index s i = (if i < length s then Some (s ! i) else None)"

definition orPanic :: "'a option \<Rightarrow> go_error + 'a" where
  "orPanic r = (case r of None \<Rightarrow> Inl SliceBoundsPanic | Some v \<Rightarrow> Inr v)"

text \<open>
  For a slice, the upper bound of a slice expression is the capacity, not the length
  (Go specification, "Slice expressions"). \<^verbatim>\<open>bytes.Buffer.Bytes()\<close> returns
  \<^verbatim>\<open>b.buf[b.off:]\<close>, which keeps the capacity of the buffer's storage. A fresh
  \<^verbatim>\<open>bytes.Buffer\<close> that receives one \<^verbatim>\<open>Write\<close> of \<open>n\<close> bytes keeps the nil slice for
  \<open>n = 0\<close>, allocates \<^verbatim>\<open>make([]byte, n, 64)\<close> for \<open>n \<le> 64\<close> (\<^verbatim>\<open>smallBufferSize\<close>), and for
  a longer write asks the allocator, whose answer depends on the Go release: it is the
  parameter \<open>alloc\<close>, and never less than \<open>n\<close>. New storage is zeroed.
\<close>

record goslice =
  elems :: "byte list"
  capacity :: nat

definition Buffer_cap :: "(nat \<Rightarrow> nat) \<Rightarrow> nat \<Rightarrow> nat" where
  "Buffer_cap alloc n = (if n = 0 then 0 else if n \<le> 64 then 64 else max n (alloc n))"

definition Buffer_Bytes :: "(nat \<Rightarrow> nat) \<Rightarrow> byte list \<Rightarrow> goslice" where
  "Buffer_Bytes alloc p = \<lparr>elems = p, capacity = Buffer_cap alloc (length p)\<rparr>"

definition resliceTo :: "goslice \<Rightarrow> int \<Rightarrow> go_error + byte list" where
  "resliceTo s hi =
     (if 0 \<le> hi \<and> hi \<le> int (capacity s)
      then Inr (take (nat hi) (elems s @ replicate (capacity s - length (elems s)) 0))
      else Inl SliceBoundsPanic)"

section \<open>Frame parser (response_parser.go)\<close>

record Response =
  SubHeader :: string
  NetworkNum :: string
  PCNum :: string
  UnitIONum :: string
  UnitStationNum :: string
  DataLen :: string
  EndCode :: string
  Payload :: "byte list"
  ErrInfo :: "byte list"

definition parser_3E_Process :: "byte list \<Rightarrow> go_error + Response" where
  "parser_3E_Process resp =
     (if length resp < 22 then Inl (ErrorString ''length must be larger than 22 byte'')
      else orPanic (do {
        subHeaderB \<leftarrow> sliceLen resp 0 2;
        networkNumB \<leftarrow> sliceLen resp 2 3;
        pcNumB \<leftarrow> sliceLen resp 3 4;
        unitIONumB \<leftarrow> sliceLen resp 4 6;
        unitStationNumB \<leftarrow> sliceLen resp 6 7;
        dataLenB \<leftarrow> sliceLen resp 7 9;
        endCodeB \<leftarrow> sliceLen resp 9 11;
        payloadB \<leftarrow> sliceFrom resp 11;
        Some \<lparr>SubHeader = hexBytes subHeaderB,
              NetworkNum = hexBytes networkNumB,
              PCNum = hexBytes pcNumB,
              UnitIONum = hexBytes unitIONumB,
              UnitStationNum = hexBytes unitStationNumB,
              DataLen = hexBytes dataLenB,
              EndCode = hexBytes endCodeB,
              Payload = payloadB,
              ErrInfo = []\<rparr>
      }))"

definition parser_1E_Process :: "byte list \<Rightarrow> go_error + Response" where
  "parser_1E_Process resp =
     (if length resp < 2 then Inl (ErrorString ''length must be larger than 2 bytes'')
      else if length resp = 2 then
        (case orPanic (sliceLen resp 0 2) of
           Inl e \<Rightarrow> Inl e
         | Inr code \<Rightarrow> Inl (ErrorString (''PLC returned an error code: '' @ hexBytes code)))
      else orPanic (do {
        b0 \<leftarrow> index resp 0;
        b1 \<leftarrow> index resp 1;
        payloadB \<leftarrow> sliceFrom resp 2;
        Some \<lparr>SubHeader = hexUint8 b0,
              NetworkNum = [],
              PCNum = [],
              UnitIONum = [],
              UnitStationNum = [],
              DataLen = [],
              EndCode = hexUint8 b1,
              Payload = payloadB,
              ErrInfo = []\<rparr>
      }))"

section \<open>Station: the frame encoder (station.go)\<close>

definition SUB_HEADER :: string where "SUB_HEADER = ''5000''"
definition HEALTH_CHECK_COMMAND :: string where "HEALTH_CHECK_COMMAND = ''1906''"
definition HEALTH_CHECK_SUBCOMMAND :: string where "HEALTH_CHECK_SUBCOMMAND = ''0000''"
definition READ_COMMAND :: string where "READ_COMMAND = ''0104''"
definition READ_SUB_COMMAND :: string where "READ_SUB_COMMAND = ''0000''"
definition BIT_READ_SUB_COMMAND :: string where "BIT_READ_SUB_COMMAND = ''0100''"
definition WRITE_COMMAND :: string where "WRITE_COMMAND = ''0114''"
definition WRITE_SUB_COMMAND :: string where "WRITE_SUB_COMMAND = ''0000''"
definition BIT_WRITE_SUB_COMMAND :: string where "BIT_WRITE_SUB_COMMAND = ''0100''"
definition MONITORING_TIMER :: string where "MONITORING_TIMER = ''1000''"

text \<open>
  The type \<^verbatim>\<open>station\<close> of station.go and the type \<^verbatim>\<open>station3E\<close> of the revision
  with the \<^verbatim>\<open>Station\<close> interface have the same fields and the same builders, which are
  modelled once. The sources hold no body of a builder for \<^verbatim>\<open>station1E\<close>.

  \<open>DeviceCodes\<close> is the Go map from device name to hexadecimal code. Indexing a Go map
  with a key it does not hold yields the zero value, here the empty string:
  \<open>deviceCodeOf\<close> is the expression \<^verbatim>\<open>DeviceCodes[deviceName]\<close>.
\<close>

definition DeviceCodes :: "string \<rightharpoonup> string" where
  "DeviceCodes = map_of
     [(''X'', ''9C''), (''Y'', ''9D''), (''M'', ''90''), (''L'', ''92''), (''F'', ''93''),
      (''V'', ''94''), (''B'', ''A0''), (''W'', ''B4''), (''D'', ''A8'')]"

definition deviceCodeOf :: "string \<Rightarrow> string" where
  "deviceCodeOf deviceName = (case DeviceCodes deviceName of None \<Rightarrow> [] | Some c \<Rightarrow> c)"

record station =
  networkNum :: string
  pcNum :: string
  unitIONum :: string
  unitStationNum :: string

definition NewStation :: "string \<Rightarrow> string \<Rightarrow> string \<Rightarrow> string \<Rightarrow> station" where
  "NewStation n p u s = \<lparr>networkNum = n, pcNum = p, unitIONum = u, unitStationNum = s\<rparr>"

definition NewLocalStation :: station where
  "NewLocalStation =
     \<lparr>networkNum = ''00'', pcNum = ''FF'', unitIONum = ''FF03'', unitStationNum = ''00''\<rparr>"

text \<open>
  The builders serialise an \<^verbatim>\<open>int64\<close> into a fresh buffer (8 bytes, capacity 64) and
  keep \<^verbatim>\<open>Bytes()[0:3]\<close> or \<^verbatim>\<open>Bytes()[0:2]\<close>, which is always in range:
  \<open>take\<close> on the 8 bytes. \<open>int64 (len s / 2)\<close> is \<open>of_nat (length s div 2)\<close>.
\<close>

definition BuildHealthCheckRequest :: "station \<Rightarrow> string" where
  "BuildHealthCheckRequest h =
     (let returnDataNum = ''0500'';
          returnData = ''4142434445'';
          requestStr = HEALTH_CHECK_COMMAND @ HEALTH_CHECK_SUBCOMMAND @ returnDataNum @ returnData;
          requestCharLen = length (MONITORING_TIMER @ requestStr) div 2;
          dataLen = hexBytes (take 2 (littleEndian64 (of_nat requestCharLen)))
      in SUB_HEADER @ networkNum h @ pcNum h @ unitIONum h @ unitStationNum h @
         dataLen @ MONITORING_TIMER @ requestStr)"

definition buildReadRequestHelper ::
    "station \<Rightarrow> string \<Rightarrow> int64 \<Rightarrow> int64 \<Rightarrow> string \<Rightarrow> string" where
  "buildReadRequestHelper h deviceName offset numPoints subCommand =
     (let deviceCode = deviceCodeOf deviceName;
          offsetHex = hexBytes (take 3 (littleEndian64 offset));
          points = hexBytes (take 2 (littleEndian64 numPoints));
          requestCharLen =
            length (MONITORING_TIMER @ READ_COMMAND @ READ_SUB_COMMAND @ deviceCode @
                    offsetHex @ points) div 2;
          dataLen = hexBytes (take 2 (littleEndian64 (of_nat requestCharLen)))
      in SUB_HEADER @ networkNum h @ pcNum h @ unitIONum h @ unitStationNum h @
         dataLen @ MONITORING_TIMER @ READ_COMMAND @ subCommand @ offsetHex @
         deviceCode @ points)"

definition BuildReadRequest :: "station \<Rightarrow> string \<Rightarrow> int64 \<Rightarrow> int64 \<Rightarrow> string" where
  "BuildReadRequest h deviceName offset numPoints =
     buildReadRequestHelper h deviceName offset numPoints READ_SUB_COMMAND"

definition BuildBitReadRequest :: "station \<Rightarrow> string \<Rightarrow> int64 \<Rightarrow> int64 \<Rightarrow> string" where
  "BuildBitReadRequest h deviceName offset numPoints =
     buildReadRequestHelper h deviceName offset numPoints BIT_READ_SUB_COMMAND"

text \<open>
  The write builders slice the buffer holding \<open>writeData\<close> at \<^verbatim>\<open>[0:2*numPoints]\<close>: the
  product is computed in \<^verbatim>\<open>int64\<close> (it wraps), must not be negative and must not exceed
  the capacity of the buffer's storage.
\<close>

definition buildWriteRequestHelper ::
    "(nat \<Rightarrow> nat) \<Rightarrow> station \<Rightarrow> string \<Rightarrow> int64 \<Rightarrow> int64 \<Rightarrow> byte list \<Rightarrow> string
       \<Rightarrow> go_error + string" where
  "buildWriteRequestHelper alloc h deviceName offset numPoints writeData subCommand =
     (let deviceCode = deviceCodeOf deviceName;
          offsetHex = hexBytes (take 3 (littleEndian64 offset))
      in case resliceTo (Buffer_Bytes alloc writeData) (sint (2 * numPoints)) of
           Inl e \<Rightarrow> Inl e
         | Inr writeBytes \<Rightarrow>
            (let writeHex = hexBytes writeBytes;
                 points = hexBytes (take 2 (littleEndian64 numPoints));
                 requestCharLen =
                   length (MONITORING_TIMER @ WRITE_COMMAND @ WRITE_SUB_COMMAND @ deviceCode @
                           offsetHex @ points @ writeHex) div 2;
                 dataLen = hexBytes (take 2 (littleEndian64 (of_nat requestCharLen)))
             in Inr (SUB_HEADER @ networkNum h @ pcNum h @ unitIONum h @ unitStationNum h @
                     dataLen @ MONITORING_TIMER @ WRITE_COMMAND @ subCommand @ offsetHex @
                     deviceCode @ points @ writeHex)))"

definition BuildWriteRequest ::
    "(nat \<Rightarrow> nat) \<Rightarrow> station \<Rightarrow> string \<Rightarrow> int64 \<Rightarrow> int64 \<Rightarrow> byte list \<Rightarrow> go_error + string" where
  "BuildWriteRequest alloc h deviceName offset numPoints writeData =
     buildWriteRequestHelper alloc h deviceName offset numPoints writeData WRITE_SUB_COMMAND"

definition BuildBitWriteRequest ::
    "(nat \<Rightarrow> nat) \<Rightarrow> station \<Rightarrow> string \<Rightarrow> int64 \<Rightarrow> int64 \<Rightarrow> byte list \<Rightarrow> go_error + string" where
  "BuildBitWriteRequest alloc h deviceName offset numPoints writeData =
     buildWriteRequestHelper alloc h deviceName offset numPoints writeData BIT_WRITE_SUB_COMMAND"

section \<open>Session client: the health check (client3E.HealthCheck)\<close>

text \<open>
  The TCP connection is the environment of \<open>HealthCheck\<close>: \<open>connWrite\<close> is the outcome
  of \<^verbatim>\<open>c.conn.Write(payload)\<close> (an error or none) and \<open>connRead\<close> the outcome of
  \<^verbatim>\<open>c.conn.Read(readBuff)\<close> on a buffer of the given size (an error, or the bytes
  received, of which the buffer keeps at most its size). The result is Go's \<^verbatim>\<open>error\<close>:
  \<open>None\<close> is \<^verbatim>\<open>nil\<close>.
\<close>

definition verifyHealthCheck :: "byte list \<Rightarrow> go_error option" where
  "verifyHealthCheck resp =
     (if length resp \<noteq> 18 then
        Some (ErrorString
          (''plc connect test is fail: return length is ['' @ hexBytes resp @ '']''))
      else
        (case sliceLen resp 11 13 of
           None \<Rightarrow> Some SliceBoundsPanic
         | Some hdr \<Rightarrow>
            (if ''0500'' \<noteq> hexBytes hdr then
               Some (ErrorString
                 (''plc connect test is fail: return header is ['' @ hexBytes hdr @ '']''))
             else
               (case sliceLen resp 13 18 of
                  None \<Rightarrow> Some SliceBoundsPanic
                | Some body \<Rightarrow>
                   (if ''4142434445'' \<noteq> hexBytes body then
                      Some (ErrorString
                        (''plc connect test is fail: return body is ['' @ hexBytes body @ '']''))
                    else None)))))"

definition HealthCheck ::
    "station \<Rightarrow> (byte list \<Rightarrow> go_error option) \<Rightarrow> (nat \<Rightarrow> go_error + byte list)
       \<Rightarrow> go_error option" where
  "HealthCheck stn connWrite connRead =
     (case hex_DecodeString (BuildHealthCheckRequest stn) of
        Inl err \<Rightarrow> Some err
      | Inr payload \<Rightarrow>
         (case connWrite payload of
            Some err \<Rightarrow> Some err
          | None \<Rightarrow>
             (case connRead 30 of
                Inl err \<Rightarrow> Some err
              | Inr received \<Rightarrow> verifyHealthCheck (take 30 received))))"

section \<open>The documented frame layout\<close>

text \<open>
  The 3E request frame starts with the sub-header and the four station fields; the data
  length (4 characters) follows, then the monitoring timer (4), the command (4), the
  sub-command (4), the offset (6), the device code (2) and the point count (4), and for
  a write the data. The functions below read these fields back out of a frame.
\<close>

definition header3E :: "station \<Rightarrow> string" where
  "header3E h = SUB_HEADER @ networkNum h @ pcNum h @ unitIONum h @ unitStationNum h"

definition dataLengthField :: "station \<Rightarrow> string \<Rightarrow> string" where
  "dataLengthField h frame = take 4 (drop (length (header3E h)) frame)"

definition bodyFromTimer :: "station \<Rightarrow> string \<Rightarrow> string" where
  "bodyFromTimer h frame = drop (length (header3E h) + 4) frame"

definition offsetField :: "station \<Rightarrow> string \<Rightarrow> string" where
  "offsetField h frame = take 6 (drop (length (header3E h) + 16) frame)"

definition deviceCodeField :: "station \<Rightarrow> string \<Rightarrow> string" where
  "deviceCodeField h frame = take 2 (drop (length (header3E h) + 22) frame)"

definition pointsField :: "station \<Rightarrow> string \<Rightarrow> string" where
  "pointsField h frame = take 4 (drop (length (header3E h) + 24) frame)"

text \<open>
  \<open>frame3E h body\<close> is the documented frame around a body that starts at the monitoring
  timer, and \<open>requestBody\<close> the documented body of a read or write request.
  \<open>writeDataField\<close> is what follows the point count. \<open>dataLengthValue\<close> decodes the data
  length field, and \<open>dataLengthAgrees\<close> says that the field is the two low little-endian
  bytes of half the number of characters from the monitoring timer to the end of the
  frame, so that it decodes to that number modulo 65536, which is the number itself for
  every body shorter than 65536 bytes.
\<close>

definition frame3E :: "station \<Rightarrow> string \<Rightarrow> string" where
  "frame3E h body =
     header3E h @ hexBytes (take 2 (littleEndian64 (of_nat (length body div 2)))) @ body"

definition requestBody ::
    "string \<Rightarrow> string \<Rightarrow> string \<Rightarrow> string \<Rightarrow> string \<Rightarrow> string \<Rightarrow> string" where
  "requestBody command subCommand offsetHex deviceCode points writeHex =
     MONITORING_TIMER @ command @ subCommand @ offsetHex @ deviceCode @ points @ writeHex"

definition writeDataField :: "station \<Rightarrow> string \<Rightarrow> string \<Rightarrow> string" where
  "writeDataField h deviceName frame =
     drop (length (header3E h) + 26 + length (deviceCodeOf deviceName)) frame"

definition dataLengthValue :: "station \<Rightarrow> string \<Rightarrow> nat option" where
  "dataLengthValue h frame =
     (case hex_DecodeString (dataLengthField h frame) of
        Inl e \<Rightarrow> None | Inr bs \<Rightarrow> Some (leValue bs))"

definition dataLengthAgrees :: "station \<Rightarrow> string \<Rightarrow> bool" where
  "dataLengthAgrees h frame =
     (let n = length (bodyFromTimer h frame) div 2 in
      take 4 (bodyFromTimer h frame) = MONITORING_TIMER \<and>
      dataLengthField h frame = hexBytes (take 2 (littleEndian64 (of_nat n))) \<and>
      dataLengthValue h frame = Some (n mod 2 ^ 16) \<and>
      (n < 2 ^ 16 \<longrightarrow> dataLengthValue h frame = Some n))"

text \<open>
  \<open>addressFields\<close>: the offset field is the hexadecimal text of the three low
  little-endian bytes of the offset, and the point count field that of the two low bytes
  of the number of points.
\<close>

definition addressFields :: "station \<Rightarrow> int64 \<Rightarrow> int64 \<Rightarrow> string \<Rightarrow> bool" where
  "addressFields h offset numPoints frame =
     (offsetField h frame = hexBytes (take 3 (littleEndian64 offset)) \<and>
      pointsField h frame = hexBytes (take 2 (littleEndian64 numPoints)))"

text \<open>
  \<open>slicePanics\<close>: the slice expression \<^verbatim>\<open>writeBuff.Bytes()[0:2*numPoints]\<close> is out of
  range, which is when the bound, computed in \<^verbatim>\<open>int64\<close>, is negative or exceeds the
  capacity of the buffer's storage.
\<close>

definition slicePanics :: "(nat \<Rightarrow> nat) \<Rightarrow> int64 \<Rightarrow> byte list \<Rightarrow> bool" where
  "slicePanics alloc numPoints writeData =
     (sint (2 * numPoints) < 0 \<or>
      int (Buffer_cap alloc (length writeData)) < sint (2 * numPoints))"

text \<open>
  \<open>asciiBytes s\<close> is \<^verbatim>\<open>[]byte(s)\<close>. \<open>echoAccepted\<close> is the condition on the response
  to the health check: 18 bytes, of which bytes 11 and 12 print as "0500" and bytes 13 to
  17 are the characters "ABCDE".
\<close>

definition asciiBytes :: "string \<Rightarrow> byte list" where
  "asciiBytes s = map (\<lambda>c. of_nat (of_char c)) s"

definition echoAccepted :: "byte list \<Rightarrow> bool" where
  "echoAccepted resp =
     (length resp = 18 \<and> hexBytes (take 2 (drop 11 resp)) = ''0500'' \<and>
      take 5 (drop 13 resp) = asciiBytes ''ABCDE'')"

text \<open>A string of hexadecimal digits, and the number of bytes a frame decodes to.\<close>

definition isHexString :: "string \<Rightarrow> bool" where
  "isHexString s = list_all (\<lambda>c. fromHexChar c \<noteq> None) s"

definition decodedLength :: "string \<Rightarrow> nat option" where
  "decodedLength s = (case hex_DecodeString s of Inl e \<Rightarrow> None | Inr bs \<Rightarrow> Some (length bs))"

text \<open>The station fields have their documented widths and are hexadecimal text.\<close>

definition wellFormedStation :: "station \<Rightarrow> bool" where
  "wellFormedStation h =
     (length (networkNum h) = 2 \<and> length (pcNum h) = 2 \<and> length (unitIONum h) = 4 \<and>
      length (unitStationNum h) = 2 \<and> isHexString (networkNum h) \<and> isHexString (pcNum h) \<and>
      isHexString (unitIONum h) \<and> isHexString (unitStationNum h))"

section \<open>Bytes, hexadecimal text and little-endian values\<close>

lemmas frame_consts =
  SUB_HEADER_def HEALTH_CHECK_COMMAND_def HEALTH_CHECK_SUBCOMMAND_def READ_COMMAND_def
  READ_SUB_COMMAND_def BIT_READ_SUB_COMMAND_def WRITE_COMMAND_def WRITE_SUB_COMMAND_def
  BIT_WRITE_SUB_COMMAND_def MONITORING_TIMER_def

lemma length_hexBytes: "length (hexBytes bs) = 2 * length bs"
  by (induction bs) (simp_all add: hexBytes_def hexByte_def)

lemma hexBytes_append: "hexBytes (xs @ ys) = hexBytes xs @ hexBytes ys"
  by (simp add: hexBytes_def)

lemma length_littleEndian64: "length (littleEndian64 w) = 8"
  by (simp add: littleEndian64_def)

lemma nat_less_16_cases:
  "n < (16::nat) \<Longrightarrow> n \<in> {0,1,2,3,4,5,6,7,8,9,10,11,12,13,14,15}"
  by simp arith

lemma fromHexChar_hexDigit: "n < 16 \<Longrightarrow> fromHexChar (hexDigit n) = Some (of_nat n)"
  by (drule nat_less_16_cases) (elim insertE emptyE; simp add: fromHexChar_def hexDigit_def)

lemma of_nat_div16: "(of_nat (unat b div 16) :: byte) = drop_bit 4 b"
proof -
  have "unat b < 256" using unsigned_less [of b, where ?'a = nat] by simp
  then have "unat b div 16 mod 256 = unat b div 16" by simp
  then show ?thesis
    by (simp add: word_unat_eq_iff unat_of_nat unat_drop_bit_eq drop_bit_eq_div unat_div)
qed

lemma of_nat_mod16: "(of_nat (unat b mod 16) :: byte) = take_bit 4 b"
  by (simp add: word_unat_eq_iff unat_of_nat unsigned_take_bit_eq take_bit_eq_mod unat_mod)

lemma split3: "(x::nat) mod 256 + 256 * (x div 256 mod 256 + 256 * (x div 65536 mod 256)) = x mod 16777216"
proof -
  have a: "x mod (256 * 65536) = 256 * (x div 256 mod 65536) + x mod 256"
    by (rule mod_mult2_eq)
  have b: "(x div 256) mod (256 * 256) = 256 * (x div 256 div 256 mod 256) + x div 256 mod 256"
    by (rule mod_mult2_eq)
  have c: "x div 256 div 256 = x div 65536" by (simp add: div_mult2_eq [symmetric])
  from a b c show ?thesis by simp
qed

lemma split2: "(x::nat) mod 256 + 256 * (x div 256 mod 256) = x mod 65536"
  using mod_mult2_eq [of x 256 256] by simp

lemma byte_of_drop: "unat (ucast (drop_bit k (w::int64)) :: byte) = unat w div 2 ^ k mod 256"
proof -
  have "unat (ucast (drop_bit k w) :: byte) = drop_bit k (unat w) mod 256"
    by (simp add: unsigned_ucast_eq unat_drop_bit_eq take_bit_eq_mod)
  then show ?thesis by (simp add: drop_bit_eq_div)
qed

lemma byte_of_low: "unat (ucast (w::int64) :: byte) = unat w mod 256"
  by (simp add: unsigned_ucast_eq take_bit_eq_mod)

lemma leValue3: "leValue (take 3 (littleEndian64 w)) = unat w mod 2^24"
  using split3 [of "unat w"] byte_of_drop [of 8 w] byte_of_drop [of 16 w]
  by (simp add: littleEndian64_def byte_of_low)

lemma leValue2: "leValue (take 2 (littleEndian64 w)) = unat w mod 2^16"
  using split2 [of "unat w"] byte_of_drop [of 8 w]
  by (simp add: littleEndian64_def byte_of_low)

lemma byte_nibbles: "push_bit 4 (of_nat (unat b div 16)) OR of_nat (unat b mod 16) = (b::byte)"
  unfolding of_nat_div16 of_nat_mod16
  by (rule bit_word_eqI) (auto simp: bit_simps)



lemma unat_byte_less: "unat (b::byte) < 256"
  using unsigned_less [of b, where ?'a = nat] by simp

lemma hex_DecodeString_hexByte:
  "hex_DecodeString (hexByte b @ rest) =
     (case hex_DecodeString rest of Inl e \<Rightarrow> Inl e | Inr bs \<Rightarrow> Inr (b # bs))"
proof -
  have hi: "unat b div 16 < 16" using unat_byte_less [of b] by simp
  have lo: "unat b mod 16 < 16" by simp
  show ?thesis
    by (simp add: hexByte_def fromHexChar_hexDigit [OF hi] fromHexChar_hexDigit [OF lo]
        byte_nibbles split: sum.split)
qed

lemma hex_DecodeString_hexBytes_append:
  "hex_DecodeString (hexBytes bs @ rest) =
     (case hex_DecodeString rest of Inl e \<Rightarrow> Inl e | Inr cs \<Rightarrow> Inr (bs @ cs))"
proof (induction bs)
  case Nil
  show ?case by (simp add: hexBytes_def split: sum.split)
next
  case (Cons b bs)
  have "hexBytes (b # bs) @ rest = hexByte b @ (hexBytes bs @ rest)"
    by (simp add: hexBytes_def)
  then show ?case
    by (simp add: hex_DecodeString_hexByte Cons.IH split: sum.split)
qed

lemma hex_DecodeString_hexBytes: "hex_DecodeString (hexBytes bs) = Inr bs"
  using hex_DecodeString_hexBytes_append [of bs "[]"] by simp

lemma hexBytes_inject: "hexBytes xs = hexBytes ys \<longleftrightarrow> xs = ys"
proof
  assume "hexBytes xs = hexBytes ys"
  then have "hex_DecodeString (hexBytes xs) = hex_DecodeString (hexBytes ys)" by simp
  then show "xs = ys" by (simp add: hex_DecodeString_hexBytes)
qed simp

lemma isHexString_append: "isHexString (xs @ ys) \<longleftrightarrow> isHexString xs \<and> isHexString ys"
  by (simp add: isHexString_def)

lemma isHexString_hexBytes: "isHexString (hexBytes bs)"
proof -
  have "hex_DecodeString s = Inr bs \<Longrightarrow> isHexString s" for s bs
  proof (induction s arbitrary: bs rule: hex_DecodeString.induct)
    case 1
    show ?case by (simp add: isHexString_def)
  next
    case (2 p)
    then show ?case by (simp split: option.splits)
  next
    case (3 p q rest)
    then show ?case by (auto simp: isHexString_def split: option.splits sum.splits)
  qed
  then show ?thesis using hex_DecodeString_hexBytes by blast
qed

lemma decodedLength_hex:
  "isHexString s \<Longrightarrow> even (length s) \<Longrightarrow> decodedLength s = Some (length s div 2)"
proof (induction s rule: hex_DecodeString.induct)
  case 1
  show ?case by (simp add: decodedLength_def)
next
  case (2 p)
  then show ?case by simp
next
  case (3 p q rest)
  from "3.prems" obtain a b where ab: "fromHexChar p = Some a" "fromHexChar q = Some b"
    by (auto simp: isHexString_def)
  from "3.prems" have "isHexString rest" "even (length rest)"
    by (simp_all add: isHexString_def)
  with "3.IH" [OF ab] have "decodedLength rest = Some (length rest div 2)" by simp
  with ab show ?case
    by (simp add: decodedLength_def split: sum.splits)
qed

lemmas hex_eval = hexBytes_def hexByte_def hexUint8_def hexDigit_def
lemmas slice_eval = sliceLen_def sliceFrom_def index_def orPanic_def

section \<open>The frame parsers\<close>

text \<open>
  Claim C1. The 3E parser rejects a buffer shorter than 22 bytes with the length error
  and no response. For every buffer of at least 22 bytes it returns a response, whatever
  the end code is: the fields are the hexadecimal text of the byte ranges [0,2), [2,3),
  [3,4), [4,6), [6,7), [7,9) and [9,11), and the payload is the buffer from byte 11 on.
\<close>

theorem parser_3E_Process_fields:
  "(length resp < 22 \<longrightarrow>
      parser_3E_Process resp = Inl (ErrorString ''length must be larger than 22 byte'')) \<and>
   (22 \<le> length resp \<longrightarrow>
      parser_3E_Process resp =
        Inr \<lparr>SubHeader = hexBytes (take 2 resp),
             NetworkNum = hexBytes (take 1 (drop 2 resp)),
             PCNum = hexBytes (take 1 (drop 3 resp)),
             UnitIONum = hexBytes (take 2 (drop 4 resp)),
             UnitStationNum = hexBytes (take 1 (drop 6 resp)),
             DataLen = hexBytes (take 2 (drop 7 resp)),
             EndCode = hexBytes (take 2 (drop 9 resp)),
             Payload = drop 11 resp,
             ErrInfo = []\<rparr>)"
  by (simp add: parser_3E_Process_def slice_eval)

theorem parser_3E_Process_fields_witness:
  "length [1, 2, 3 :: byte] < 22 \<and>
   parser_3E_Process [1, 2, 3] = Inl (ErrorString ''length must be larger than 22 byte'') \<and>
   22 \<le> length [0xD0, 0x00, 0x00, 0xFF, 0xFF, 0x03, 0x00, 0x0E, 0x00, 0x51, 0xC0,
                 0x10, 0x11, 0x12, 0x13, 0x14, 0x15, 0x16, 0x17, 0x18, 0x19, 0x1A, 0x1B :: byte] \<and>
   parser_3E_Process
     [0xD0, 0x00, 0x00, 0xFF, 0xFF, 0x03, 0x00, 0x0E, 0x00, 0x51, 0xC0,
      0x10, 0x11, 0x12, 0x13, 0x14, 0x15, 0x16, 0x17, 0x18, 0x19, 0x1A, 0x1B] =
     Inr \<lparr>SubHeader = ''D000'', NetworkNum = ''00'', PCNum = ''FF'', UnitIONum = ''FF03'',
          UnitStationNum = ''00'', DataLen = ''0E00'', EndCode = ''51C0'',
          Payload = [0x10, 0x11, 0x12, 0x13, 0x14, 0x15, 0x16, 0x17, 0x18, 0x19, 0x1A, 0x1B],
          ErrInfo = []\<rparr>"
  using parser_3E_Process_fields [of "[1, 2, 3]"]
    parser_3E_Process_fields
      [of "[0xD0, 0x00, 0x00, 0xFF, 0xFF, 0x03, 0x00, 0x0E, 0x00, 0x51, 0xC0,
            0x10, 0x11, 0x12, 0x13, 0x14, 0x15, 0x16, 0x17, 0x18, 0x19, 0x1A, 0x1B]"]
  by (simp add: hex_eval)

text \<open>
  Claim C5, as stated, fails: a buffer of exactly 22 bytes with a zero end code yields a
  payload of 11 bytes (bytes 11 to 21), not an empty one, since the payload starts at
  byte 11.
\<close>

theorem parser_3E_22_bytes_payload_counterexample:
  "map_sum id Payload
     (parser_3E_Process
        [0xD0, 0x00, 0x00, 0xFF, 0xFF, 0x03, 0x00, 0x0D, 0x00, 0x00, 0x00,
         1, 2, 3, 4, 5, 6, 7, 8, 9, 10, 11]) =
   Inr [1, 2, 3, 4, 5, 6, 7, 8, 9, 10, 11] \<and>
   [1, 2, 3, 4, 5, 6, 7, 8, 9, 10, 11 :: byte] \<noteq> []"
  by (simp add: parser_3E_Process_def slice_eval)

text \<open>
  Claim C5, amended. The 3E parser, applied to a buffer of exactly 22 bytes whose end-code
  bytes are zero, returns without error a response with end code "0000" whose payload is
  the last 11 bytes of the buffer; applied to a 21-byte buffer it returns the length
  error.
\<close>

theorem parser_3E_22_and_21_bytes:
  "(length resp = 22 \<and> take 2 (drop 9 resp) = [0, 0] \<longrightarrow>
      (\<exists>r. parser_3E_Process resp = Inr r \<and> EndCode r = ''0000'' \<and>
           Payload r = drop 11 resp \<and> length (Payload r) = 11)) \<and>
   (length resp = 21 \<longrightarrow>
      parser_3E_Process resp = Inl (ErrorString ''length must be larger than 22 byte''))"
  by (simp add: parser_3E_Process_def slice_eval hex_eval)

theorem parser_3E_22_and_21_bytes_witness:
  "length (0xD0 # 0x00 # 0x00 # 0xFF # 0xFF # 0x03 # 0x00 # 0x0D # 0x00 # 0x00 # 0x00 #
     [1, 2, 3, 4, 5, 6, 7, 8, 9, 10, 11 :: byte]) = 22 \<and>
   (\<exists>r. parser_3E_Process
          [0xD0, 0x00, 0x00, 0xFF, 0xFF, 0x03, 0x00, 0x0D, 0x00, 0x00, 0x00,
           1, 2, 3, 4, 5, 6, 7, 8, 9, 10, 11] = Inr r \<and>
        EndCode r = ''0000'' \<and> Payload r = [1, 2, 3, 4, 5, 6, 7, 8, 9, 10, 11]) \<and>
   parser_3E_Process
     [0xD0, 0x00, 0x00, 0xFF, 0xFF, 0x03, 0x00, 0x0D, 0x00, 0x00, 0x00,
      1, 2, 3, 4, 5, 6, 7, 8, 9, 10] =
     Inl (ErrorString ''length must be larger than 22 byte'')"
  using parser_3E_22_and_21_bytes
      [of "[0xD0, 0x00, 0x00, 0xFF, 0xFF, 0x03, 0x00, 0x0D, 0x00, 0x00, 0x00,
            1, 2, 3, 4, 5, 6, 7, 8, 9, 10, 11]"]
    parser_3E_22_and_21_bytes
      [of "[0xD0, 0x00, 0x00, 0xFF, 0xFF, 0x03, 0x00, 0x0D, 0x00, 0x00, 0x00,
            1, 2, 3, 4, 5, 6, 7, 8, 9, 10]"]
  by auto

text \<open>
  Claim C6. The 1E parser on the buffer 5A 00 FF returns sub-header "5A" and payload FF,
  but the end code is "0", not "00": a single byte printed with \<^verbatim>\<open>%X\<close> is a number
  and loses its leading zero. The 2-byte buffer 12 34 yields the error carrying "1234".
\<close>

theorem parser_1E_Process_end_code_text:
  "parser_1E_Process [0x5A, 0x00, 0xFF] =
     Inr \<lparr>SubHeader = ''5A'', NetworkNum = [], PCNum = [], UnitIONum = [],
          UnitStationNum = [], DataLen = [], EndCode = ''0'', Payload = [0xFF],
          ErrInfo = []\<rparr>"
  by (simp add: parser_1E_Process_def slice_eval hex_eval)

lemma parser_1E_Process_cases:
  "parser_1E_Process resp =
     (if length resp < 2 then Inl (ErrorString ''length must be larger than 2 bytes'')
      else if length resp = 2 then
        Inl (ErrorString (''PLC returned an error code: '' @ hexBytes resp))
      else Inr \<lparr>SubHeader = hexUint8 (resp ! 0), NetworkNum = [], PCNum = [],
                UnitIONum = [], UnitStationNum = [], DataLen = [],
                EndCode = hexUint8 (resp ! 1), Payload = drop 2 resp, ErrInfo = []\<rparr>)"
  by (simp add: parser_1E_Process_def slice_eval)

lemma parser_1E_Process_plc_error:
  "parser_1E_Process [0x12, 0x34] = Inl (ErrorString ''PLC returned an error code: 1234'')"
  by (simp add: parser_1E_Process_def slice_eval hex_eval)

section \<open>The shape of the frames the builders return\<close>

lemma length_deviceCodeOf: "length (deviceCodeOf d) = (if d \<in> dom DeviceCodes then 2 else 0)"
  by (auto simp: deviceCodeOf_def DeviceCodes_def split: option.splits if_splits)


lemma even_length_deviceCodeOf: "even (length (deviceCodeOf d))"
  by (simp add: length_deviceCodeOf)

lemma isHexString_deviceCodeOf: "isHexString (deviceCodeOf d)"
  by (auto simp: deviceCodeOf_def DeviceCodes_def isHexString_def fromHexChar_def
      split: option.splits if_splits)

lemma length_dataLen: "length (hexBytes (take 2 (littleEndian64 w))) = 4"
  by (simp add: length_hexBytes length_littleEndian64)

lemma length_offsetHex: "length (hexBytes (take 3 (littleEndian64 w))) = 6"
  by (simp add: length_hexBytes length_littleEndian64)

lemma frame3E_dataLength:
  "dataLengthField h (frame3E h body) =
     hexBytes (take 2 (littleEndian64 (of_nat (length body div 2))))"
  by (simp add: dataLengthField_def frame3E_def length_dataLen)

lemma frame3E_body: "bodyFromTimer h (frame3E h body) = body"
  by (simp add: bodyFromTimer_def frame3E_def length_dataLen)

lemma frame3E_offset:
  "length c = 4 \<Longrightarrow> length s = 4 \<Longrightarrow> length off = 6 \<Longrightarrow>
   offsetField h (frame3E h (requestBody c s off dc p w)) = off"
  by (simp add: offsetField_def frame3E_def requestBody_def length_dataLen MONITORING_TIMER_def)

lemma frame3E_deviceCode:
  "length c = 4 \<Longrightarrow> length s = 4 \<Longrightarrow> length off = 6 \<Longrightarrow> length dc = 2 \<Longrightarrow>
   deviceCodeField h (frame3E h (requestBody c s off dc p w)) = dc"
  by (simp add: deviceCodeField_def frame3E_def requestBody_def length_dataLen
      MONITORING_TIMER_def)

lemma frame3E_points:
  "length c = 4 \<Longrightarrow> length s = 4 \<Longrightarrow> length off = 6 \<Longrightarrow> length dc = 2 \<Longrightarrow> length p = 4 \<Longrightarrow>
   pointsField h (frame3E h (requestBody c s off dc p w)) = p"
  by (simp add: pointsField_def frame3E_def requestBody_def length_dataLen
      MONITORING_TIMER_def)

lemma frame3E_writeData:
  assumes "length c = 4" "length s = 4" "length off = 6" "length p = 4"
  shows "writeDataField h d (frame3E h (requestBody c s off (deviceCodeOf d) p w)) = w"
proof -
  let ?dl = "hexBytes (take 2 (littleEndian64
               (of_nat (length (requestBody c s off (deviceCodeOf d) p w) div 2))))"
  let ?front = "header3E h @ ?dl @ MONITORING_TIMER @ c @ s @ off @ deviceCodeOf d @ p"
  have fr: "frame3E h (requestBody c s off (deviceCodeOf d) p w) = ?front @ w"
    by (simp add: frame3E_def requestBody_def)
  have len: "length (header3E h) + 26 + length (deviceCodeOf d) = length ?front"
    using assms by (simp add: length_dataLen MONITORING_TIMER_def)
  show ?thesis unfolding writeDataField_def fr len by simp
qed

lemma length_frame3E:
  "length (frame3E h (requestBody c s off dc p w)) =
     length (header3E h) + 8 + length c + length s + length off + length dc + length p + length w"
  by (simp add: frame3E_def requestBody_def length_dataLen MONITORING_TIMER_def)

lemma unat_of_nat_mod16: "unat (of_nat n :: int64) mod 2 ^ 16 = n mod 2 ^ 16"
proof -
  have "unat (of_nat n :: int64) = n mod 2 ^ 64" by (simp add: unat_of_nat)
  then show ?thesis by (simp add: mod_mod_cancel)
qed

lemma frame3E_dataLengthAgrees:
  assumes "take 4 body = MONITORING_TIMER"
  shows "dataLengthAgrees h (frame3E h body)"
proof -
  have "dataLengthValue h (frame3E h body) = Some (length body div 2 mod 2 ^ 16)"
    using unat_of_nat_mod16 [of "length body div 2"]
    by (simp add: dataLengthValue_def frame3E_dataLength hex_DecodeString_hexBytes leValue2)
  with assms show ?thesis
    by (simp add: dataLengthAgrees_def frame3E_dataLength frame3E_body)
qed

lemma BuildHealthCheckRequest_frame:
  "BuildHealthCheckRequest h =
     frame3E h (MONITORING_TIMER @ HEALTH_CHECK_COMMAND @ HEALTH_CHECK_SUBCOMMAND @ ''0500'' @
                ''4142434445'')"
  by (simp add: BuildHealthCheckRequest_def frame3E_def header3E_def)

lemma buildReadRequestHelper_frame:
  assumes "length sub = 4"
  shows "buildReadRequestHelper h d off n sub =
           frame3E h (requestBody READ_COMMAND sub (hexBytes (take 3 (littleEndian64 off)))
                        (deviceCodeOf d) (hexBytes (take 2 (littleEndian64 n))) [])"
proof -
  let ?offsetHex = "hexBytes (take 3 (littleEndian64 off))"
  let ?points = "hexBytes (take 2 (littleEndian64 n))"
  have len: "length (MONITORING_TIMER @ READ_COMMAND @ READ_SUB_COMMAND @ deviceCodeOf d @
                     ?offsetHex @ ?points) =
             length (requestBody READ_COMMAND sub ?offsetHex (deviceCodeOf d) ?points [])"
    using assms by (simp add: requestBody_def frame_consts)
  show ?thesis
    unfolding buildReadRequestHelper_def Let_def len frame3E_def header3E_def
    by (simp add: requestBody_def)
qed

lemma buildWriteRequestHelper_frame:
  assumes "length sub = 4"
  shows "buildWriteRequestHelper alloc h d off n wd sub =
           (case resliceTo (Buffer_Bytes alloc wd) (sint (2 * n)) of
              Inl e \<Rightarrow> Inl e
            | Inr bs \<Rightarrow>
                Inr (frame3E h (requestBody WRITE_COMMAND sub
                       (hexBytes (take 3 (littleEndian64 off))) (deviceCodeOf d)
                       (hexBytes (take 2 (littleEndian64 n))) (hexBytes bs))))"
proof (cases "resliceTo (Buffer_Bytes alloc wd) (sint (2 * n))")
  case (Inl e)
  then show ?thesis by (simp add: buildWriteRequestHelper_def)
next
  case (Inr bs)
  let ?offsetHex = "hexBytes (take 3 (littleEndian64 off))"
  let ?points = "hexBytes (take 2 (littleEndian64 n))"
  have len: "length (MONITORING_TIMER @ WRITE_COMMAND @ WRITE_SUB_COMMAND @ deviceCodeOf d @
                     ?offsetHex @ ?points @ hexBytes bs) =
             length (requestBody WRITE_COMMAND sub ?offsetHex (deviceCodeOf d) ?points
                       (hexBytes bs))"
    using assms by (simp add: requestBody_def frame_consts)
  show ?thesis
    unfolding buildWriteRequestHelper_def Let_def Inr sum.case len frame3E_def header3E_def
    by (simp add: requestBody_def)
qed

lemma Buffer_cap_ge: "n \<le> Buffer_cap alloc n"
  by (simp add: Buffer_cap_def)

lemma resliceTo_within_length:
  "0 \<le> k \<Longrightarrow> nat k \<le> length wd \<Longrightarrow>
   resliceTo (Buffer_Bytes alloc wd) k = Inr (take (nat k) wd)"
  using Buffer_cap_ge [of "length wd" alloc]
  by (simp add: resliceTo_def Buffer_Bytes_def)

lemma resliceTo_length:
  "resliceTo (Buffer_Bytes alloc wd) k = Inr bs \<Longrightarrow> 0 \<le> k \<and> length bs = nat k"
  by (auto simp: resliceTo_def Buffer_Bytes_def split: if_splits)

lemma resliceTo_error:
  "resliceTo s k = Inl e \<Longrightarrow> e = SliceBoundsPanic"
  by (auto simp: resliceTo_def split: if_splits)

section \<open>The frame builders\<close>

lemma sub_lengths:
  "length READ_SUB_COMMAND = 4" "length BIT_READ_SUB_COMMAND = 4"
  "length WRITE_SUB_COMMAND = 4" "length BIT_WRITE_SUB_COMMAND = 4"
  "length READ_COMMAND = 4" "length WRITE_COMMAND = 4"
  by (simp_all add: frame_consts)

lemma requestBody_timer: "take 4 (requestBody c s off dc p w) = MONITORING_TIMER"
  by (simp add: requestBody_def MONITORING_TIMER_def)

lemma read_dataLengthAgrees:
  "length sub = 4 \<Longrightarrow> dataLengthAgrees h (buildReadRequestHelper h d off n sub)"
  by (simp add: buildReadRequestHelper_frame frame3E_dataLengthAgrees requestBody_timer)

lemma write_dataLengthAgrees:
  assumes "length sub = 4" and "buildWriteRequestHelper alloc h d off n wd sub = Inr frame"
  shows "dataLengthAgrees h frame \<and>
         length (bodyFromTimer h frame) div 2 =
           11 + length (deviceCodeOf d) div 2 + nat (sint (2 * n))"
proof -
  from assms obtain bs where
    bs: "resliceTo (Buffer_Bytes alloc wd) (sint (2 * n)) = Inr bs" and
    fr: "frame = frame3E h (requestBody WRITE_COMMAND sub
                   (hexBytes (take 3 (littleEndian64 off))) (deviceCodeOf d)
                   (hexBytes (take 2 (littleEndian64 n))) (hexBytes bs))"
    by (auto simp: buildWriteRequestHelper_frame split: sum.splits)
  have "length bs = nat (sint (2 * n))" using resliceTo_length [OF bs] by simp
  then have "length (bodyFromTimer h frame) div 2 =
               11 + length (deviceCodeOf d) div 2 + nat (sint (2 * n))"
    using assms(1) even_length_deviceCodeOf [of d]
    by (simp add: fr frame3E_body requestBody_def frame_consts length_hexBytes
        length_littleEndian64)
  then show ?thesis by (simp add: fr frame3E_dataLengthAgrees requestBody_timer)
qed

text \<open>
  Claim C2, amended. In every frame built by the health check, read, bit read, write
  and bit write builders, for every station, the data length field holds the two low
  bytes of the little-endian serialisation of half the number of hexadecimal characters
  from the monitoring timer to the end of the frame: it decodes to that number modulo
  65536, which is the number itself for every body shorter than 65536 bytes. It is
  computed from the frame at hand: a write frame's body has 11 bytes, the device code
  and the \<open>2 * numPoints\<close> bytes of data.
\<close>

theorem dataLength_field_recomputed:
  "dataLengthAgrees h (BuildHealthCheckRequest h) \<and>
   dataLengthAgrees h (BuildReadRequest h d off n) \<and>
   dataLengthAgrees h (BuildBitReadRequest h d off n) \<and>
   (\<forall>frame. BuildWriteRequest alloc h d off n wd = Inr frame \<longrightarrow>
      dataLengthAgrees h frame \<and>
      length (bodyFromTimer h frame) div 2 =
        11 + length (deviceCodeOf d) div 2 + nat (sint (2 * n))) \<and>
   (\<forall>frame. BuildBitWriteRequest alloc h d off n wd = Inr frame \<longrightarrow>
      dataLengthAgrees h frame \<and>
      length (bodyFromTimer h frame) div 2 =
        11 + length (deviceCodeOf d) div 2 + nat (sint (2 * n)))"
proof (intro conjI allI impI)
  show "dataLengthAgrees h (BuildHealthCheckRequest h)"
    by (simp add: BuildHealthCheckRequest_frame frame3E_dataLengthAgrees MONITORING_TIMER_def)
  show "dataLengthAgrees h (BuildReadRequest h d off n)"
    by (simp add: BuildReadRequest_def read_dataLengthAgrees sub_lengths)
  show "dataLengthAgrees h (BuildBitReadRequest h d off n)"
    by (simp add: BuildBitReadRequest_def read_dataLengthAgrees sub_lengths)
next
  fix frame assume "BuildWriteRequest alloc h d off n wd = Inr frame"
  then have *: "buildWriteRequestHelper alloc h d off n wd WRITE_SUB_COMMAND = Inr frame"
    by (simp add: BuildWriteRequest_def)
  from write_dataLengthAgrees [OF sub_lengths(3) *]
  show "dataLengthAgrees h frame"
    and "length (bodyFromTimer h frame) div 2 =
           11 + length (deviceCodeOf d) div 2 + nat (sint (2 * n))" by simp_all
next
  fix frame assume "BuildBitWriteRequest alloc h d off n wd = Inr frame"
  then have *: "buildWriteRequestHelper alloc h d off n wd BIT_WRITE_SUB_COMMAND = Inr frame"
    by (simp add: BuildBitWriteRequest_def)
  from write_dataLengthAgrees [OF sub_lengths(4) *]
  show "dataLengthAgrees h frame"
    and "length (bodyFromTimer h frame) div 2 =
           11 + length (deviceCodeOf d) div 2 + nat (sint (2 * n))" by simp_all
qed

lemmas builder_eval =
  BuildReadRequest_def BuildBitReadRequest_def buildReadRequestHelper_def
  BuildWriteRequest_def BuildBitWriteRequest_def buildWriteRequestHelper_def
  BuildHealthCheckRequest_def NewLocalStation_def deviceCodeOf_def DeviceCodes_def
  littleEndian64_def resliceTo_def Buffer_Bytes_def Buffer_cap_def

lemma write_example:
  "BuildWriteRequest id NewLocalStation ''D'' 100 2 [0x34, 0x12, 0x78, 0x56, 0xFF] =
     Inr ''500000FFFF03001000100001140000640000A8020034127856''"
  by (simp add: builder_eval hex_eval frame_consts)

theorem dataLength_field_recomputed_witness:
  "BuildWriteRequest id NewLocalStation ''D'' 100 2 [0x34, 0x12, 0x78, 0x56, 0xFF] =
     Inr ''500000FFFF03001000100001140000640000A8020034127856'' \<and>
   dataLengthAgrees NewLocalStation ''500000FFFF03001000100001140000640000A8020034127856'' \<and>
   dataLengthField NewLocalStation ''500000FFFF03001000100001140000640000A8020034127856'' =
     ''1000'' \<and>
   length (bodyFromTimer NewLocalStation
     ''500000FFFF03001000100001140000640000A8020034127856'') div 2 = 16 \<and>
   (16 :: nat) < 2 ^ 16 \<and>
   dataLengthValue NewLocalStation ''500000FFFF03001000100001140000640000A8020034127856'' =
     Some 16"
proof -
  let ?frame = "''500000FFFF03001000100001140000640000A8020034127856''"
  have w: "BuildWriteRequest id NewLocalStation ''D'' 100 2 [0x34, 0x12, 0x78, 0x56, 0xFF] =
             Inr ?frame"
    by (rule write_example)
  from dataLength_field_recomputed
         [of NewLocalStation "''D''" 100 2 id "[0x34, 0x12, 0x78, 0x56, 0xFF]"] w
  have agrees: "dataLengthAgrees NewLocalStation ?frame" by blast
  have field: "dataLengthField NewLocalStation ?frame = ''1000''"
    by (simp add: dataLengthField_def header3E_def NewLocalStation_def SUB_HEADER_def)
  have len: "length (bodyFromTimer NewLocalStation ?frame) div 2 = 16"
    by (simp add: bodyFromTimer_def header3E_def NewLocalStation_def SUB_HEADER_def)
  have small: "(16 :: nat) < 2 ^ 16" by simp
  from agrees have "dataLengthValue NewLocalStation ?frame = Some 16"
    unfolding dataLengthAgrees_def Let_def len using small by blast
  with w agrees field len small show ?thesis by (intro conjI)
qed

lemma uint_as_sint_mod: "uint (w :: int64) = sint w mod 2 ^ 64"
  by (simp add: uint_sint take_bit_eq_mod)

lemma nat_sint_mod:
  assumes "(2::int) ^ k dvd 2 ^ 64"
  shows "nat (sint (w :: int64) mod 2 ^ k) = unat w mod 2 ^ k"
proof -
  have "sint w mod 2 ^ k = uint w mod 2 ^ k"
    unfolding uint_as_sint_mod using assms by (rule mod_mod_cancel [symmetric])
  moreover have "nat (uint w mod 2 ^ k) = nat (uint w) mod nat (2 ^ k)"
    by (rule nat_mod_distrib) simp_all
  moreover have "nat (uint w) = unat w" by (simp only: unat_eq_nat_uint)
  moreover have "nat ((2::int) ^ k) = 2 ^ k" by (simp add: nat_power_eq)
  ultimately show ?thesis by (simp only:)
qed

lemma leValue3_sint: "leValue (take 3 (littleEndian64 w)) = nat (sint w mod 2 ^ 24)"
  unfolding leValue3 by (rule nat_sint_mod [symmetric]) (simp add: le_imp_power_dvd)

lemma leValue2_sint: "leValue (take 2 (littleEndian64 w)) = nat (sint w mod 2 ^ 16)"
  unfolding leValue2 by (rule nat_sint_mod [symmetric]) (simp add: le_imp_power_dvd)

lemma frame3E_addressFields:
  assumes "length c = 4" "length s = 4" "length dc = 2"
  shows "addressFields h off n (frame3E h (requestBody c s (hexBytes (take 3 (littleEndian64 off)))
            dc (hexBytes (take 2 (littleEndian64 n))) w))"
  using assms
  by (simp add: addressFields_def frame3E_offset frame3E_points length_offsetHex length_dataLen)

lemma read_addressFields:
  "d \<in> dom DeviceCodes \<Longrightarrow> length sub = 4 \<Longrightarrow>
   addressFields h off n (buildReadRequestHelper h d off n sub)"
  by (simp add: buildReadRequestHelper_frame frame3E_addressFields sub_lengths
      length_deviceCodeOf)

lemma write_addressFields:
  assumes "d \<in> dom DeviceCodes" "length sub = 4"
    and "buildWriteRequestHelper alloc h d off n wd sub = Inr frame"
  shows "addressFields h off n frame"
proof -
  from assms(2,3) obtain bs where
    "frame = frame3E h (requestBody WRITE_COMMAND sub
               (hexBytes (take 3 (littleEndian64 off))) (deviceCodeOf d)
               (hexBytes (take 2 (littleEndian64 n))) (hexBytes bs))"
    by (auto simp: buildWriteRequestHelper_frame split: sum.splits)
  then show ?thesis
    using assms(1,2) by (simp add: frame3E_addressFields sub_lengths length_deviceCodeOf)
qed

lemma sint_twice:
  assumes "0 \<le> sint (n::int64)" and "sint n < 2 ^ 62"
  shows "sint (2 * n) = 2 * sint n"
proof -
  have "- (2 ^ 63) \<le> 2 * sint n" "2 * sint n < 2 ^ 63" using assms by simp_all
  then have "signed_take_bit 63 (2 * sint n) = 2 * sint n"
    by (rule signed_take_bit_int_eq_self)
  then show ?thesis by (simp add: sint_word_ariths)
qed

lemma reslice_first_points:
  assumes "0 \<le> sint (n::int64)" and "2 * sint n \<le> int (length wd)" and "int (length wd) < 2 ^ 63"
  shows "resliceTo (Buffer_Bytes alloc wd) (sint (2 * n)) = Inr (take (2 * nat (sint n)) wd)"
proof -
  have "sint n < 2 ^ 62" using assms(2,3) by simp
  with assms(1) have s: "sint (2 * n) = 2 * sint n" by (rule sint_twice)
  have k: "nat (2 * sint n) = 2 * nat (sint n)" using assms(1) by (simp add: nat_mult_distrib)
  have "nat (2 * sint n) \<le> length wd" using assms(1,2) by simp
  with assms(1) have "resliceTo (Buffer_Bytes alloc wd) (2 * sint n) =
                        Inr (take (nat (2 * sint n)) wd)"
    by (intro resliceTo_within_length) simp_all
  then show ?thesis by (simp only: s k)
qed

lemma helper_payload_truncated:
  assumes "length sub = 4"
    and "0 \<le> sint n" and "2 * sint n \<le> int (length wd)" and "int (length wd) < 2 ^ 63"
  shows "buildWriteRequestHelper alloc h d off n wd sub =
           Inr (frame3E h (requestBody WRITE_COMMAND sub
                  (hexBytes (take 3 (littleEndian64 off))) (deviceCodeOf d)
                  (hexBytes (take 2 (littleEndian64 n)))
                  (hexBytes (take (2 * nat (sint n)) wd))))"
  by (simp add: buildWriteRequestHelper_frame [OF assms(1)] reslice_first_points [OF assms(2-4)])

lemma helper_payload_independent:
  assumes "length sub = 4"
    and "0 \<le> sint n" and "2 * sint n \<le> int (length wd)" and "int (length wd) < 2 ^ 63"
  shows "buildWriteRequestHelper alloc h d off n wd sub =
           buildWriteRequestHelper alloc h d off n (take (2 * nat (sint n)) wd) sub \<and>
         (\<exists>frame. buildWriteRequestHelper alloc h d off n wd sub = Inr frame \<and>
            writeDataField h d frame = hexBytes (take (2 * nat (sint n)) wd))"
proof -
  let ?k = "2 * nat (sint n)"
  have le: "?k \<le> length wd" using assms(2,3) by simp
  then have len: "length (take ?k wd) = ?k" by simp
  have a: "2 * sint n \<le> int (length (take ?k wd))" unfolding len using assms(2) by simp
  have "int ?k \<le> int (length wd)" using le by (simp only: of_nat_le_iff)
  with assms(4) have b: "int (length (take ?k wd)) < 2 ^ 63" unfolding len by linarith
  have "buildWriteRequestHelper alloc h d off n (take ?k wd) sub =
          buildWriteRequestHelper alloc h d off n wd sub"
    by (simp add: helper_payload_truncated [OF assms]
        helper_payload_truncated [OF assms(1,2) a b])
  then show ?thesis
    using assms(1)
    by (simp add: helper_payload_truncated [OF assms] frame3E_writeData sub_lengths
        length_offsetHex length_dataLen)
qed

text \<open>
  Claim C2, as stated, fails for a body of 65536 bytes or more: the write request for
  32763 points with 65526 bytes of data has a body of 65538 bytes (131076 characters),
  and its data length field decodes to 2.
\<close>

theorem dataLength_large_body_counterexample:
  "map_sum id (dataLengthValue NewLocalStation)
     (BuildWriteRequest id NewLocalStation ''D'' 100 32763 (replicate 65526 0)) =
     Inr (Some 2) \<and>
   map_sum id (length \<circ> bodyFromTimer NewLocalStation)
     (BuildWriteRequest id NewLocalStation ''D'' 100 32763 (replicate 65526 0)) =
     Inr 131076 \<and>
   (2 :: nat) \<noteq> 131076 div 2"
proof -
  let ?body = "requestBody WRITE_COMMAND WRITE_SUB_COMMAND
                 (hexBytes (take 3 (littleEndian64 100))) (deviceCodeOf ''D'')
                 (hexBytes (take 2 (littleEndian64 32763)))
                 (hexBytes (take (2 * nat (sint (32763 :: int64))) (replicate 65526 0)))"
  have fr: "BuildWriteRequest id NewLocalStation ''D'' 100 32763 (replicate 65526 0) =
              Inr (frame3E NewLocalStation ?body)"
    unfolding BuildWriteRequest_def
    by (rule helper_payload_truncated [OF sub_lengths(3)]) simp_all
  have dc: "length (deviceCodeOf ''D'') = 2" by (simp add: deviceCodeOf_def DeviceCodes_def)
  have len: "length ?body = 131076"
    by (simp add: requestBody_def frame_consts length_hexBytes length_littleEndian64 dc)
  have "dataLengthAgrees NewLocalStation (frame3E NewLocalStation ?body)"
    by (rule frame3E_dataLengthAgrees) (rule requestBody_timer)
  then have v: "dataLengthValue NewLocalStation (frame3E NewLocalStation ?body) = Some 2"
    unfolding dataLengthAgrees_def Let_def frame3E_body len by simp
  have b: "length (bodyFromTimer NewLocalStation (frame3E NewLocalStation ?body)) = 131076"
    unfolding frame3E_body by (rule len)
  show ?thesis unfolding fr by (simp only: map_sum.simps comp_apply v b id_apply) simp
qed

text \<open>
  Claim C3. For a registered device name, every offset and every number of points, the
  offset field of a read, bit read, write or bit write frame is the hexadecimal text of
  the three low little-endian bytes of the offset, which stand for the offset modulo
  \<open>2 ^ 24\<close>, and the point count field that of the two low bytes of the number of
  points, which stand for it modulo \<open>2 ^ 16\<close>. The read builders always return such a
  frame, and the write builders return one whenever \<open>numPoints\<close> is not negative and
  \<open>writeData\<close> holds at least \<open>2 * numPoints\<close> bytes. The read request for device "D",
  offset 100 and one point carries "640000" followed by "A8".
\<close>

theorem offset_and_points_fields:
  assumes "d \<in> dom DeviceCodes"
  shows "addressFields h off n (BuildReadRequest h d off n) \<and>
         addressFields h off n (BuildBitReadRequest h d off n) \<and>
         (\<forall>frame. BuildWriteRequest alloc h d off n wd = Inr frame \<longrightarrow>
                  addressFields h off n frame) \<and>
         (\<forall>frame. BuildBitWriteRequest alloc h d off n wd = Inr frame \<longrightarrow>
                  addressFields h off n frame) \<and>
         (0 \<le> sint n \<and> 2 * sint n \<le> int (length wd) \<and> int (length wd) < 2 ^ 63 \<longrightarrow>
            (\<exists>frame. BuildWriteRequest alloc h d off n wd = Inr frame \<and>
                     addressFields h off n frame) \<and>
            (\<exists>frame. BuildBitWriteRequest alloc h d off n wd = Inr frame \<and>
                     addressFields h off n frame)) \<and>
         hex_DecodeString (hexBytes (take 3 (littleEndian64 off))) =
           Inr (take 3 (littleEndian64 off)) \<and>
         leValue (take 3 (littleEndian64 off)) = nat (sint off mod 2 ^ 24) \<and>
         hex_DecodeString (hexBytes (take 2 (littleEndian64 n))) =
           Inr (take 2 (littleEndian64 n)) \<and>
         leValue (take 2 (littleEndian64 n)) = nat (sint n mod 2 ^ 16) \<and>
         offsetField h (BuildReadRequest h ''D'' 100 1) @
           deviceCodeField h (BuildReadRequest h ''D'' 100 1) = ''640000A8''"
proof -
  have ex: "offsetField h (BuildReadRequest h ''D'' 100 1) @
              deviceCodeField h (BuildReadRequest h ''D'' 100 1) = ''640000A8''"
  proof -
    have dc: "deviceCodeOf ''D'' = ''A8''" by (simp add: deviceCodeOf_def DeviceCodes_def)
    have "offsetField h (BuildReadRequest h ''D'' 100 1) = hexBytes (take 3 (littleEndian64 100))"
      by (simp add: BuildReadRequest_def buildReadRequestHelper_frame sub_lengths
          frame3E_offset length_offsetHex)
    moreover have "deviceCodeField h (BuildReadRequest h ''D'' 100 1) = ''A8''"
      by (simp add: BuildReadRequest_def buildReadRequestHelper_frame sub_lengths
          frame3E_deviceCode length_offsetHex dc)
    moreover have "hexBytes (take 3 (littleEndian64 100)) = ''640000''"
      by (simp add: littleEndian64_def hex_eval)
    ultimately show ?thesis by simp
  qed
  have rd: "addressFields h off n (BuildReadRequest h d off n)"
    using assms by (simp add: BuildReadRequest_def read_addressFields sub_lengths)
  have brd: "addressFields h off n (BuildBitReadRequest h d off n)"
    using assms by (simp add: BuildBitReadRequest_def read_addressFields sub_lengths)
  have wr: "\<forall>frame. BuildWriteRequest alloc h d off n wd = Inr frame \<longrightarrow>
              addressFields h off n frame"
    using assms write_addressFields [of d WRITE_SUB_COMMAND alloc h off n wd]
    by (simp add: BuildWriteRequest_def sub_lengths)
  have bwr: "\<forall>frame. BuildBitWriteRequest alloc h d off n wd = Inr frame \<longrightarrow>
              addressFields h off n frame"
    using assms write_addressFields [of d BIT_WRITE_SUB_COMMAND alloc h off n wd]
    by (simp add: BuildBitWriteRequest_def sub_lengths)
  have ret: "0 \<le> sint n \<and> 2 * sint n \<le> int (length wd) \<and> int (length wd) < 2 ^ 63 \<longrightarrow>
            (\<exists>frame. BuildWriteRequest alloc h d off n wd = Inr frame \<and>
                     addressFields h off n frame) \<and>
            (\<exists>frame. BuildBitWriteRequest alloc h d off n wd = Inr frame \<and>
                     addressFields h off n frame)"
  proof (intro impI, elim conjE)
    assume pre: "0 \<le> sint n" "2 * sint n \<le> int (length wd)" "int (length wd) < 2 ^ 63"
    from helper_payload_truncated [OF sub_lengths(3) pre, of alloc h d off]
    obtain f where f: "BuildWriteRequest alloc h d off n wd = Inr f"
      by (simp add: BuildWriteRequest_def)
    from helper_payload_truncated [OF sub_lengths(4) pre, of alloc h d off]
    obtain g where g: "BuildBitWriteRequest alloc h d off n wd = Inr g"
      by (simp add: BuildBitWriteRequest_def)
    have "addressFields h off n f" by (rule wr [rule_format, OF f])
    moreover have "addressFields h off n g" by (rule bwr [rule_format, OF g])
    ultimately show "(\<exists>frame. BuildWriteRequest alloc h d off n wd = Inr frame \<and>
                        addressFields h off n frame) \<and>
                     (\<exists>frame. BuildBitWriteRequest alloc h d off n wd = Inr frame \<and>
                        addressFields h off n frame)"
      using f g by (intro conjI exI [of _ f] exI [of _ g])
  qed
  from rd brd wr bwr ret ex show ?thesis
    by (simp only: hex_DecodeString_hexBytes leValue3_sint leValue2_sint simp_thms)
qed

theorem offset_and_points_fields_witness:
  "''D'' \<in> dom DeviceCodes \<and>
   offsetField NewLocalStation (BuildReadRequest NewLocalStation ''D'' 19088743 70000) =
     ''674523'' \<and>
   pointsField NewLocalStation (BuildBitReadRequest NewLocalStation ''D'' 19088743 70000) =
     ''7011'' \<and>
   leValue (take 3 (littleEndian64 19088743)) = nat (sint (19088743 :: int64) mod 2 ^ 24) \<and>
   0 \<le> sint (2 :: int64) \<and>
   2 * sint (2 :: int64) \<le> int (length [0x34, 0x12, 0x78, 0x56, 0xFF :: byte]) \<and>
   int (length [0x34, 0x12, 0x78, 0x56, 0xFF :: byte]) < 2 ^ 63 \<and>
   BuildWriteRequest id NewLocalStation ''D'' 19088743 2 [0x34, 0x12, 0x78, 0x56, 0xFF] =
     Inr ''500000FFFF03001000100001140000674523A8020034127856'' \<and>
   addressFields NewLocalStation 19088743 2
     ''500000FFFF03001000100001140000674523A8020034127856'' \<and>
   offsetField NewLocalStation ''500000FFFF03001000100001140000674523A8020034127856'' =
     ''674523'' \<and>
   pointsField NewLocalStation ''500000FFFF03001000100001140000674523A8020034127856'' =
     ''0200'' \<and>
   BuildBitWriteRequest id NewLocalStation ''D'' 19088743 2 [0x34, 0x12, 0x78, 0x56, 0xFF] =
     Inr ''500000FFFF03001000100001140100674523A8020034127856'' \<and>
   addressFields NewLocalStation 19088743 2
     ''500000FFFF03001000100001140100674523A8020034127856''"
proof -
  let ?wd = "[0x34, 0x12, 0x78, 0x56, 0xFF :: byte]"
  let ?w = "''500000FFFF03001000100001140000674523A8020034127856''"
  let ?bw = "''500000FFFF03001000100001140100674523A8020034127856''"
  have d: "''D'' \<in> dom DeviceCodes" by (simp add: DeviceCodes_def)
  note r = offset_and_points_fields [OF d, of NewLocalStation 19088743 70000 id "[]"]
  note t = offset_and_points_fields [OF d, of NewLocalStation 19088743 2 id ?wd]
  have h3: "hexBytes (take 3 (littleEndian64 19088743)) = ''674523''"
    and h70000: "hexBytes (take 2 (littleEndian64 70000)) = ''7011''"
    and h2: "hexBytes (take 2 (littleEndian64 2)) = ''0200''"
    by (simp_all add: littleEndian64_def hex_eval)
  have ro: "offsetField NewLocalStation (BuildReadRequest NewLocalStation ''D'' 19088743 70000) =
              ''674523''"
    using r [THEN conjunct1] by (simp add: addressFields_def h3)
  have rp: "pointsField NewLocalStation
              (BuildBitReadRequest NewLocalStation ''D'' 19088743 70000) = ''7011''"
    using r [THEN conjunct2, THEN conjunct1] by (simp add: addressFields_def h70000)
  have lv: "leValue (take 3 (littleEndian64 19088743)) =
              nat (sint (19088743 :: int64) mod 2 ^ 24)"
    by (rule r [THEN conjunct2, THEN conjunct2, THEN conjunct2, THEN conjunct2,
                THEN conjunct2, THEN conjunct2, THEN conjunct1])
  have p1: "0 \<le> sint (2 :: int64)"
    and p2: "2 * sint (2 :: int64) \<le> int (length ?wd)"
    and p3: "int (length ?wd) < 2 ^ 63" by simp_all
  have w: "BuildWriteRequest id NewLocalStation ''D'' 19088743 2 ?wd = Inr ?w"
    by (simp add: builder_eval hex_eval frame_consts)
  have bw: "BuildBitWriteRequest id NewLocalStation ''D'' 19088743 2 ?wd = Inr ?bw"
    by (simp add: builder_eval hex_eval frame_consts)
  have aw: "addressFields NewLocalStation 19088743 2 ?w"
    using t [THEN conjunct2, THEN conjunct2, THEN conjunct1, rule_format, OF w] .
  have abw: "addressFields NewLocalStation 19088743 2 ?bw"
    using t [THEN conjunct2, THEN conjunct2, THEN conjunct2, THEN conjunct1, rule_format,
             OF bw] .
  have wo: "offsetField NewLocalStation ?w = ''674523''"
    using aw by (simp only: addressFields_def h3)
  have wp: "pointsField NewLocalStation ?w = ''0200''"
    using aw by (simp only: addressFields_def h2)
  from d ro rp lv p1 p2 p3 w aw wo wp bw abw show ?thesis by (intro conjI)
qed

text \<open>
  Claim C4. For every device name and offset, when \<open>numPoints\<close> is not negative and
  \<open>writeData\<close> holds at least \<open>2 * numPoints\<close> bytes (a Go slice is shorter than
  \<open>2 ^ 63\<close>), the write and bit write builders return a frame whose trailing text,
  after the point count, is the hexadecimal text of the first \<open>2 * numPoints\<close> bytes of
  \<open>writeData\<close>, and the result is the same as for \<open>writeData\<close> cut to these bytes.
\<close>

theorem write_payload_truncation:
  assumes "0 \<le> sint n" and "2 * sint n \<le> int (length wd)" and "int (length wd) < 2 ^ 63"
  shows "BuildWriteRequest alloc h d off n wd =
           BuildWriteRequest alloc h d off n (take (2 * nat (sint n)) wd) \<and>
         (\<exists>frame. BuildWriteRequest alloc h d off n wd = Inr frame \<and>
            writeDataField h d frame = hexBytes (take (2 * nat (sint n)) wd)) \<and>
         BuildBitWriteRequest alloc h d off n wd =
           BuildBitWriteRequest alloc h d off n (take (2 * nat (sint n)) wd) \<and>
         (\<exists>frame. BuildBitWriteRequest alloc h d off n wd = Inr frame \<and>
            writeDataField h d frame = hexBytes (take (2 * nat (sint n)) wd))"
  unfolding BuildWriteRequest_def BuildBitWriteRequest_def
  using helper_payload_independent [OF sub_lengths(3) assms]
    helper_payload_independent [OF sub_lengths(4) assms]
  by blast

theorem write_payload_truncation_witness:
  "0 \<le> sint (2 :: int64) \<and> 2 * sint (2 :: int64) \<le> int (length [0x34, 0x12, 0x78, 0x56, 0xFF :: byte]) \<and>
   int (length [0x34, 0x12, 0x78, 0x56, 0xFF :: byte]) < 2 ^ 63 \<and>
   BuildWriteRequest id NewLocalStation ''D'' 100 2 [0x34, 0x12, 0x78, 0x56, 0xFF] =
     BuildWriteRequest id NewLocalStation ''D'' 100 2 [0x34, 0x12, 0x78, 0x56] \<and>
   (\<exists>frame. BuildWriteRequest id NewLocalStation ''D'' 100 2 [0x34, 0x12, 0x78, 0x56, 0xFF] =
             Inr frame \<and>
           writeDataField NewLocalStation ''D'' frame = ''34127856'')"
proof -
  have a: "0 \<le> sint (2 :: int64)" by simp
  have b: "2 * sint (2 :: int64) \<le> int (length [0x34, 0x12, 0x78, 0x56, 0xFF :: byte])" by simp
  have c: "int (length [0x34, 0x12, 0x78, 0x56, 0xFF :: byte]) < 2 ^ 63" by simp
  have h: "hexBytes [0x34, 0x12, 0x78, 0x56] = ''34127856''" by (simp add: hex_eval)
  have t: "take (2 * nat (sint (2 :: int64))) [0x34, 0x12, 0x78, 0x56, 0xFF :: byte] =
             [0x34, 0x12, 0x78, 0x56]" by simp
  from write_payload_truncation [OF a b c, of id NewLocalStation "''D''" 100]
  have "BuildWriteRequest id NewLocalStation ''D'' 100 2 [0x34, 0x12, 0x78, 0x56, 0xFF] =
          BuildWriteRequest id NewLocalStation ''D'' 100 2 [0x34, 0x12, 0x78, 0x56]"
    and "\<exists>frame. BuildWriteRequest id NewLocalStation ''D'' 100 2
                    [0x34, 0x12, 0x78, 0x56, 0xFF] = Inr frame \<and>
                 writeDataField NewLocalStation ''D'' frame = ''34127856''"
    unfolding t h by blast+
  with a b c show ?thesis by blast
qed

lemma isHexString_header3E: "wellFormedStation h \<Longrightarrow> isHexString (header3E h)"
  by (simp add: wellFormedStation_def header3E_def isHexString_append)
     (simp add: isHexString_def SUB_HEADER_def fromHexChar_def)

lemma length_header3E: "wellFormedStation h \<Longrightarrow> length (header3E h) = 14"
  by (simp add: wellFormedStation_def header3E_def SUB_HEADER_def)

lemma isHexString_frame3E:
  "isHexString (header3E h) \<Longrightarrow> isHexString body \<Longrightarrow> isHexString (frame3E h body)"
  by (simp add: frame3E_def isHexString_append isHexString_hexBytes)

lemma isHexString_consts:
  "isHexString MONITORING_TIMER" "isHexString READ_COMMAND" "isHexString READ_SUB_COMMAND"
  by (simp_all add: isHexString_def frame_consts fromHexChar_def)

text \<open>
  Claim C7, amended. For a station whose fields are hexadecimal text of the documented
  widths and a registered device, the read request decodes to 21 bytes: 7 of header
  (sub-header 2, network 1, PC 1, unit I/O 2, unit station 1), 2 of data length, 2 of
  timer, 2 of command, 2 of sub-command, 3 of offset, 1 of device code and 2 of points.
\<close>

theorem read_request_decoded_length:
  assumes "wellFormedStation h" and "d \<in> dom DeviceCodes"
  shows "decodedLength (BuildReadRequest h d off n) = Some (7 + 2 + 2 + 2 + 2 + 3 + 1 + 2)"
proof -
  let ?body = "requestBody READ_COMMAND READ_SUB_COMMAND (hexBytes (take 3 (littleEndian64 off)))
                 (deviceCodeOf d) (hexBytes (take 2 (littleEndian64 n))) []"
  have fr: "BuildReadRequest h d off n = frame3E h ?body"
    by (simp add: BuildReadRequest_def buildReadRequestHelper_frame sub_lengths)
  have "isHexString ?body"
    by (simp add: requestBody_def isHexString_append isHexString_consts isHexString_hexBytes
        isHexString_deviceCodeOf)
  with assms(1) have hex: "isHexString (frame3E h ?body)"
    by (simp add: isHexString_frame3E isHexString_header3E)
  have len: "length (frame3E h ?body) = 42"
    using assms
    by (simp add: length_frame3E length_header3E sub_lengths length_offsetHex length_dataLen
        length_deviceCodeOf)
  from decodedLength_hex [OF hex] len show ?thesis by (simp add: fr)
qed

theorem read_request_decoded_length_witness:
  "wellFormedStation NewLocalStation \<and> ''D'' \<in> dom DeviceCodes \<and>
   decodedLength (BuildReadRequest NewLocalStation ''D'' 100 1) = Some 21"
proof -
  have w: "wellFormedStation NewLocalStation"
    by (simp add: wellFormedStation_def NewLocalStation_def isHexString_def fromHexChar_def)
  have d: "''D'' \<in> dom DeviceCodes" by (simp add: DeviceCodes_def)
  from read_request_decoded_length [OF w d, of 100 1] w d show ?thesis by simp
qed

text \<open>
  Claim C7, as stated, fails: the header before the data length is 7 bytes, not 11, so
  the read request of the local station for "D", 100, 1 decodes to 21 bytes, not 25.
\<close>

theorem read_request_25_bytes_counterexample:
  "decodedLength (BuildReadRequest NewLocalStation ''D'' 100 1) = Some 21 \<and>
   (21 :: nat) \<noteq> 11 + 2 + 2 + 2 + 2 + 3 + 1 + 2"
proof -
  have "BuildReadRequest NewLocalStation ''D'' 100 1 =
          ''500000FFFF03000C00100001040000640000A80100''"
    by (simp add: BuildReadRequest_def buildReadRequestHelper_def NewLocalStation_def
        deviceCodeOf_def DeviceCodes_def littleEndian64_def hex_eval frame_consts)
  then show ?thesis by (simp add: decodedLength_def fromHexChar_def)
qed

lemma uint_of_nonneg_sint:
  assumes "0 \<le> sint (n::int64)"
  shows "uint n = sint n"
proof -
  have "sint n < 2 ^ 63" using sint_lt [of n] by simp
  then have "sint n < 2 ^ 64" by simp
  with assms show ?thesis by (simp add: uint_as_sint_mod)
qed

lemma sint_twice_nonzero:
  assumes "0 < sint (n::int64)"
  shows "sint (2 * n) \<noteq> 0"
proof
  assume "sint (2 * n) = 0"
  then have "2 * n = 0" by (simp only: signed_eq_0_iff)
  then have "uint (2 * n) = 0" by simp
  then have "(2 * uint n) mod 2 ^ 64 = 0" by (simp add: uint_word_ariths)
  moreover have "uint n = sint n" using assms by (intro uint_of_nonneg_sint) simp
  moreover have "sint n < 2 ^ 63" using sint_lt [of n] by simp
  ultimately show False using assms by simp
qed

lemma helper_panics_iff:
  "buildWriteRequestHelper alloc h d off n wd sub = Inl SliceBoundsPanic \<longleftrightarrow>
     slicePanics alloc n wd"
  by (auto simp: buildWriteRequestHelper_def slicePanics_def resliceTo_def Buffer_Bytes_def
      Let_def)

lemma helper_returns:
  assumes "length sub = 4" and "\<not> slicePanics alloc n wd"
  shows "\<exists>frame. buildWriteRequestHelper alloc h d off n wd sub = Inr frame \<and>
           writeDataField h d frame =
             hexBytes (take (nat (sint (2 * n)))
                         (wd @ replicate (Buffer_cap alloc (length wd) - length wd) 0))"
proof -
  from assms(2) have
    "resliceTo (Buffer_Bytes alloc wd) (sint (2 * n)) =
       Inr (take (nat (sint (2 * n)))
              (wd @ replicate (Buffer_cap alloc (length wd) - length wd) 0))"
    by (simp add: slicePanics_def resliceTo_def Buffer_Bytes_def)
  then show ?thesis
    using assms(1)
    by (simp add: buildWriteRequestHelper_frame frame3E_writeData sub_lengths
        length_offsetHex length_dataLen)
qed

lemma empty_data_panics: "0 < sint n \<Longrightarrow> slicePanics alloc n []"
  using sint_twice_nonzero [of n] by (auto simp: slicePanics_def Buffer_cap_def)

lemma short_data_within_capacity:
  assumes "0 < sint n" and "wd \<noteq> []" and "2 * sint n \<le> 64"
  shows "\<not> slicePanics alloc n wd"
proof -
  have "sint n < 2 ^ 62" using assms(3) by simp
  with assms(1) have s: "sint (2 * n) = 2 * sint n" by (intro sint_twice) simp_all
  have "64 \<le> Buffer_cap alloc (length wd)" using assms(2) by (auto simp: Buffer_cap_def)
  with assms(1,3) show ?thesis by (simp add: slicePanics_def s)
qed

lemma long_data_in_bounds:
  assumes "0 \<le> sint n" and "2 * sint n \<le> int (length wd)" and "int (length wd) < 2 ^ 63"
  shows "\<not> slicePanics alloc n wd"
proof -
  have "sint n < 2 ^ 62" using assms(2,3) by simp
  with assms(1) have s: "sint (2 * n) = 2 * sint n" by (rule sint_twice)
  have "int (length wd) \<le> int (Buffer_cap alloc (length wd))"
    using Buffer_cap_ge [of "length wd" alloc] by simp
  with assms(1,2) show ?thesis by (simp add: slicePanics_def s)
qed

text \<open>
  Claim C10, amended. The write builders panic exactly when \<open>2 * numPoints\<close>, computed
  in \<^verbatim>\<open>int64\<close>, is negative or exceeds the capacity of the buffer's storage; otherwise
  they return a frame whose data is \<open>writeData\<close>, followed by the zero bytes of the
  storage, cut at \<open>2 * numPoints\<close> bytes. So with \<open>numPoints > 0\<close> an empty \<open>writeData\<close>
  panics, a non-empty one does not as long as \<open>2 * numPoints\<close> is at most 64, and under
  the precondition (\<open>numPoints\<close> not negative, at least \<open>2 * numPoints\<close> bytes of data)
  the slice is in range and a frame is returned.
\<close>

theorem write_builders_slice_bounds:
  "(BuildWriteRequest alloc h d off n wd = Inl SliceBoundsPanic \<longleftrightarrow> slicePanics alloc n wd) \<and>
   (BuildBitWriteRequest alloc h d off n wd = Inl SliceBoundsPanic \<longleftrightarrow>
      slicePanics alloc n wd) \<and>
   (\<not> slicePanics alloc n wd \<longrightarrow>
      (\<exists>frame. BuildWriteRequest alloc h d off n wd = Inr frame \<and>
         writeDataField h d frame =
           hexBytes (take (nat (sint (2 * n)))
                       (wd @ replicate (Buffer_cap alloc (length wd) - length wd) 0))) \<and>
      (\<exists>frame. BuildBitWriteRequest alloc h d off n wd = Inr frame \<and>
         writeDataField h d frame =
           hexBytes (take (nat (sint (2 * n)))
                       (wd @ replicate (Buffer_cap alloc (length wd) - length wd) 0)))) \<and>
   (0 < sint n \<and> wd = [] \<longrightarrow> slicePanics alloc n wd) \<and>
   (0 < sint n \<and> wd \<noteq> [] \<and> 2 * sint n \<le> 64 \<longrightarrow> \<not> slicePanics alloc n wd) \<and>
   (0 \<le> sint n \<and> 2 * sint n \<le> int (length wd) \<and> int (length wd) < 2 ^ 63 \<longrightarrow>
      \<not> slicePanics alloc n wd)"
  unfolding BuildWriteRequest_def BuildBitWriteRequest_def
  using helper_returns [OF sub_lengths(3), of alloc n wd h d off]
    helper_returns [OF sub_lengths(4), of alloc n wd h d off]
    empty_data_panics [of n alloc] short_data_within_capacity [of n wd alloc]
    long_data_in_bounds [of n wd alloc]
  by (simp add: helper_panics_iff)

theorem write_builders_slice_bounds_witness:
  "0 < sint (40 :: int64) \<and> slicePanics id 40 [] \<and>
   BuildWriteRequest id NewLocalStation ''D'' 100 40 [] = Inl SliceBoundsPanic \<and>
   [0x34 :: byte] \<noteq> [] \<and> 2 * sint (2 :: int64) \<le> 64 \<and> \<not> slicePanics id 2 [0x34] \<and>
   (\<exists>frame. BuildWriteRequest id NewLocalStation ''D'' 100 2 [0x34] = Inr frame \<and>
      writeDataField NewLocalStation ''D'' frame = ''34000000'') \<and>
   0 \<le> sint (1 :: int64) \<and> 2 * sint (1 :: int64) \<le> int (length [0x34, 0x12 :: byte]) \<and>
   int (length [0x34, 0x12 :: byte]) < 2 ^ 63 \<and> \<not> slicePanics id 1 [0x34, 0x12]"
proof -
  note t40 = write_builders_slice_bounds [of id NewLocalStation "''D''" 100 40 "[]"]
  note t2 = write_builders_slice_bounds [of id NewLocalStation "''D''" 100 2 "[0x34]"]
  note t1 = write_builders_slice_bounds [of id NewLocalStation "''D''" 100 1 "[0x34, 0x12]"]
  have a: "0 < sint (40 :: int64)" by simp
  have p: "slicePanics id 40 []"
    using t40 [THEN conjunct2, THEN conjunct2, THEN conjunct2, THEN conjunct1] a by simp
  have q: "BuildWriteRequest id NewLocalStation ''D'' 100 40 [] = Inl SliceBoundsPanic"
    using t40 [THEN conjunct1] p by simp
  have b1: "[0x34 :: byte] \<noteq> []" and b2: "2 * sint (2 :: int64) \<le> 64" by simp_all
  have np: "\<not> slicePanics id 2 [0x34]"
    using t2 [THEN conjunct2, THEN conjunct2, THEN conjunct2, THEN conjunct2, THEN conjunct1]
    by simp
  have pad: "hexBytes (take (nat (sint (2 * 2 :: int64)))
               ([0x34] @ replicate (Buffer_cap id (length [0x34 :: byte]) - length [0x34 :: byte]) 0)) =
             ''34000000''"
    by (simp add: Buffer_cap_def hex_eval numeral_3_eq_3)
  have fr: "\<exists>frame. BuildWriteRequest id NewLocalStation ''D'' 100 2 [0x34] = Inr frame \<and>
              writeDataField NewLocalStation ''D'' frame = ''34000000''"
    using t2 [THEN conjunct2, THEN conjunct2, THEN conjunct1, rule_format, OF np,
              THEN conjunct1]
    unfolding pad .
  have c1: "0 \<le> sint (1 :: int64)"
    and c2: "2 * sint (1 :: int64) \<le> int (length [0x34, 0x12 :: byte])"
    and c3: "int (length [0x34, 0x12 :: byte]) < 2 ^ 63" by simp_all
  have np2: "\<not> slicePanics id 1 [0x34, 0x12]"
    using t1 [THEN conjunct2, THEN conjunct2, THEN conjunct2, THEN conjunct2, THEN conjunct2]
    by simp
  from a p q b1 b2 np fr c1 c2 c3 np2 show ?thesis by (intro conjI)
qed

text \<open>
  Claim C10, as stated, fails: with one point and a single byte of data, shorter than
  \<open>2 * numPoints\<close>, the builder does not panic. The buffer's storage has capacity 64,
  the slice takes the byte and one zero byte, and the frame ends in "0100".
\<close>

theorem short_write_data_panics_counterexample:
  "0 < sint (1 :: int64) \<and> int (length [0x01 :: byte]) < 2 * sint (1 :: int64) \<and>
   BuildWriteRequest id NewLocalStation ''D'' 100 1 [0x01] =
     Inr ''500000FFFF03000E00100001140000640000A801000100''"
  by (simp add: BuildWriteRequest_def buildWriteRequestHelper_def NewLocalStation_def
      deviceCodeOf_def DeviceCodes_def littleEndian64_def resliceTo_def Buffer_Bytes_def
      Buffer_cap_def hex_eval frame_consts)





section \<open>The health check\<close>

lemma asciiBytes_ABCDE: "asciiBytes ''ABCDE'' = [0x41, 0x42, 0x43, 0x44, 0x45]"
  by (simp add: asciiBytes_def)

lemma hex_ABCDE: "hexBytes [0x41, 0x42, 0x43, 0x44, 0x45] = ''4142434445''"
  by (simp add: hex_eval)

lemma hex_body_iff: "''4142434445'' = hexBytes body \<longleftrightarrow> body = asciiBytes ''ABCDE''"
  unfolding hex_ABCDE [symmetric] asciiBytes_ABCDE hexBytes_inject by auto

lemma verifyHealthCheck_None: "verifyHealthCheck resp = None \<longleftrightarrow> echoAccepted resp"
proof (cases "length resp = 18")
  case False
  then show ?thesis by (simp add: verifyHealthCheck_def echoAccepted_def)
next
  case True
  then have s: "sliceLen resp 11 13 = Some (take 2 (drop 11 resp))"
    "sliceLen resp 13 18 = Some (take 5 (drop 13 resp))"
    by (simp_all add: sliceLen_def)
  show ?thesis
    using True hex_body_iff [of "take 5 (drop 13 resp)"]
    by (auto simp: verifyHealthCheck_def echoAccepted_def s)
qed

lemma verifyHealthCheck_Some:
  "verifyHealthCheck resp = Some e \<Longrightarrow>
   \<exists>msg. e = ErrorString (''plc connect test is fail: '' @ msg)"
proof (cases "length resp = 18")
  case False
  assume "verifyHealthCheck resp = Some e"
  with False show ?thesis by (auto simp: verifyHealthCheck_def)
next
  case True
  then have s: "sliceLen resp 11 13 = Some (take 2 (drop 11 resp))"
    "sliceLen resp 13 18 = Some (take 5 (drop 13 resp))"
    by (simp_all add: sliceLen_def)
  assume "verifyHealthCheck resp = Some e"
  with True show ?thesis
    by (auto simp: verifyHealthCheck_def s split: if_splits)
qed

lemma checked_range_nth:
  assumes "length xs = 18" "length ys = 18"
    and a: "take 2 (drop 11 xs) = take 2 (drop 11 ys)"
    and b: "take 5 (drop 13 xs) = take 5 (drop 13 ys)"
    and "11 \<le> i" "i < 18"
  shows "xs ! i = (ys ! i :: byte)"
proof (cases "i < 13")
  case True
  have "xs ! i = take 2 (drop 11 xs) ! (i - 11)" using assms(1,5) True by simp
  also have "\<dots> = take 2 (drop 11 ys) ! (i - 11)" by (simp only: a)
  also have "\<dots> = ys ! i" using assms(2,5) True by simp
  finally show ?thesis .
next
  case False
  have "xs ! i = take 5 (drop 13 xs) ! (i - 13)" using assms(1,6) False by simp
  also have "\<dots> = take 5 (drop 13 ys) ! (i - 13)" by (simp only: b)
  also have "\<dots> = ys ! i" using assms(2,6) False by simp
  finally show ?thesis .
qed

lemma echo_single_byte:
  assumes "echoAccepted resp" "11 \<le> i" "i < 18" "b \<noteq> resp ! i"
  shows "\<not> echoAccepted (resp[i := b])"
proof
  assume acc: "echoAccepted (resp[i := b])"
  from assms(1) acc have len: "length resp = 18" "length (resp[i := b]) = 18"
    by (simp_all add: echoAccepted_def)
  from assms(1) have "hexBytes (take 2 (drop 11 resp)) = ''0500''"
    by (simp only: echoAccepted_def)
  moreover from acc have "hexBytes (take 2 (drop 11 (resp[i := b]))) = ''0500''"
    by (simp only: echoAccepted_def)
  ultimately have "hexBytes (take 2 (drop 11 (resp[i := b]))) =
                   hexBytes (take 2 (drop 11 resp))"
    by (simp only:)
  then have a: "take 2 (drop 11 (resp[i := b])) = take 2 (drop 11 resp)"
    by (simp only: hexBytes_inject)
  from assms(1) have "take 5 (drop 13 resp) = asciiBytes ''ABCDE''"
    by (simp only: echoAccepted_def)
  moreover from acc have "take 5 (drop 13 (resp[i := b])) = asciiBytes ''ABCDE''"
    by (simp only: echoAccepted_def)
  ultimately have b: "take 5 (drop 13 (resp[i := b])) = take 5 (drop 13 resp)"
    by (simp only:)
  from checked_range_nth [OF len(2) len(1) a b assms(2,3)]
  have "resp[i := b] ! i = resp ! i" .
  with len(1) assms(3,4) show False by simp
qed

lemma HealthCheck_transport_ok:
  assumes "hex_DecodeString (BuildHealthCheckRequest stn) = Inr payload"
    and "connWrite payload = None" and "connRead 30 = Inr resp" and "length resp \<le> 30"
  shows "HealthCheck stn connWrite connRead = verifyHealthCheck resp"
  using assms by (simp add: HealthCheck_def)

text \<open>
  Claim C8. When the request was sent and a response received, \<open>HealthCheck\<close> succeeds
  exactly when the response is 18 bytes long, bytes 11 and 12 print as "0500" and bytes
  13 to 17 are "ABCDE"; every other response yields an error whose text starts with
  "plc connect test is fail", which is not an error of the connection; and changing any
  one of the bytes 11 to 17 of an accepted response yields such a failure.
\<close>

theorem HealthCheck_accepts_exactly_the_echo:
  assumes dec: "hex_DecodeString (BuildHealthCheckRequest stn) = Inr payload"
    and wr: "connWrite payload = None"
    and rd: "connRead 30 = Inr resp" and len: "length resp \<le> 30"
  shows "(HealthCheck stn connWrite connRead = None \<longleftrightarrow> echoAccepted resp) \<and>
         (\<forall>e. HealthCheck stn connWrite connRead = Some e \<longrightarrow>
            (\<exists>msg. e = ErrorString (''plc connect test is fail: '' @ msg)) \<and>
            (\<forall>t. e \<noteq> NetError t)) \<and>
         (\<forall>i b. echoAccepted resp \<and> 11 \<le> i \<and> i < 18 \<and> b \<noteq> resp ! i \<longrightarrow>
            HealthCheck stn connWrite (\<lambda>size. Inr (resp[i := b])) \<noteq> None)"
proof (intro conjI allI impI)
  note hc = HealthCheck_transport_ok [of stn payload connWrite connRead resp, OF dec wr rd len]
  show "HealthCheck stn connWrite connRead = None \<longleftrightarrow> echoAccepted resp"
    by (simp only: hc verifyHealthCheck_None)
  fix e assume "HealthCheck stn connWrite connRead = Some e"
  then have "verifyHealthCheck resp = Some e" by (simp only: hc)
  then obtain msg where m: "e = ErrorString (''plc connect test is fail: '' @ msg)"
    using verifyHealthCheck_Some by blast
  then show "\<exists>msg. e = ErrorString (''plc connect test is fail: '' @ msg)" by blast
  fix t show "e \<noteq> NetError t" using m by simp
next
  fix i b
  assume h: "echoAccepted resp \<and> 11 \<le> i \<and> i < 18 \<and> b \<noteq> resp ! i"
  then have "\<not> echoAccepted (resp[i := b])" using echo_single_byte by blast
  moreover have "HealthCheck stn connWrite (\<lambda>size. Inr (resp[i := b])) =
                   verifyHealthCheck (resp[i := b])"
    using dec wr len
    by (intro HealthCheck_transport_ok [of stn payload connWrite _ "resp[i := b]"]) simp_all
  ultimately show "HealthCheck stn connWrite (\<lambda>size. Inr (resp[i := b])) \<noteq> None"
    by (simp add: verifyHealthCheck_None)
qed

theorem HealthCheck_accepts_exactly_the_echo_witness:
  "hex_DecodeString (BuildHealthCheckRequest NewLocalStation) =
     Inr [0x50, 0x00, 0x00, 0xFF, 0xFF, 0x03, 0x00, 0x0D, 0x00, 0x10, 0x00, 0x19, 0x06,
          0x00, 0x00, 0x05, 0x00, 0x41, 0x42, 0x43, 0x44, 0x45] \<and>
   echoAccepted [0xD0, 0x00, 0x00, 0xFF, 0xFF, 0x03, 0x00, 0x09, 0x00, 0x00, 0x00,
                 0x05, 0x00, 0x41, 0x42, 0x43, 0x44, 0x45] \<and>
   HealthCheck NewLocalStation (\<lambda>payload. None)
     (\<lambda>size. Inr [0xD0, 0x00, 0x00, 0xFF, 0xFF, 0x03, 0x00, 0x09, 0x00, 0x00, 0x00,
                     0x05, 0x00, 0x41, 0x42, 0x43, 0x44, 0x45]) = None \<and>
   HealthCheck NewLocalStation (\<lambda>payload. None)
     (\<lambda>size. Inr [0xD0, 0x00, 0x00, 0xFF, 0xFF, 0x03, 0x00, 0x09, 0x00, 0x00, 0x00,
                     0x05, 0x00, 0x41, 0x42, 0x43, 0x44, 0x46]) \<noteq> None"
proof -
  let ?payload = "[0x50, 0x00, 0x00, 0xFF, 0xFF, 0x03, 0x00, 0x0D, 0x00, 0x10, 0x00, 0x19,
                   0x06, 0x00, 0x00, 0x05, 0x00, 0x41, 0x42, 0x43, 0x44, 0x45 :: byte]"
  let ?resp = "[0xD0, 0x00, 0x00, 0xFF, 0xFF, 0x03, 0x00, 0x09, 0x00, 0x00, 0x00,
                0x05, 0x00, 0x41, 0x42, 0x43, 0x44, 0x45 :: byte]"
  have req: "BuildHealthCheckRequest NewLocalStation =
               ''500000FFFF03000D0010001906000005004142434445''"
    by (simp add: BuildHealthCheckRequest_def NewLocalStation_def littleEndian64_def hex_eval
        frame_consts)
  have dec: "hex_DecodeString (BuildHealthCheckRequest NewLocalStation) = Inr ?payload"
    unfolding req by (simp add: fromHexChar_def)
  have wr: "(\<lambda>payload :: byte list. None :: go_error option) ?payload = None" by simp
  have rd: "(\<lambda>size :: nat. Inr ?resp :: go_error + byte list) 30 = Inr ?resp" by simp
  have len: "length ?resp \<le> 30" by simp
  have acc: "echoAccepted ?resp" by (simp add: echoAccepted_def asciiBytes_def hex_eval)
  note t = HealthCheck_accepts_exactly_the_echo
             [of NewLocalStation ?payload "\<lambda>payload. None" "\<lambda>size. Inr ?resp" ?resp,
              OF dec wr rd len]
  have ok: "HealthCheck NewLocalStation (\<lambda>payload. None) (\<lambda>size. Inr ?resp) = None"
    using t [THEN conjunct1] acc by simp
  have "echoAccepted ?resp \<and> 11 \<le> (17::nat) \<and> (17::nat) < 18 \<and> (0x46 :: byte) \<noteq> ?resp ! 17"
    using acc by simp
  with t [THEN conjunct2, THEN conjunct2, rule_format, of 17 "0x46"]
  have "HealthCheck NewLocalStation (\<lambda>payload. None) (\<lambda>size. Inr (?resp[17 := 0x46])) \<noteq> None"
    by blast
  then have bad: "HealthCheck NewLocalStation (\<lambda>payload. None)
     (\<lambda>size. Inr [0xD0, 0x00, 0x00, 0xFF, 0xFF, 0x03, 0x00, 0x09, 0x00, 0x00, 0x00,
                     0x05, 0x00, 0x41, 0x42, 0x43, 0x44, 0x46]) \<noteq> None"
    by simp
  from dec acc ok bad show ?thesis by (intro conjI)
qed

end
